theory Spec2Isabelle
  imports Main "HOL-Library.Char_ord" "HOL-Library.List_Lexorder"
begin

section \<open>Stage 1a: the completeness check\<close>

text \<open>
  Embedding of \<^verbatim>\<open>quality_engine/stage1/stage_1a_completeness.py\<close>.
  Playbook ids are Python strings; \<^verbatim>\<open>sorted\<close> orders them lexicographically by
  code point, which is the order of \<open>char list\<close> from \<open>Char_ord\<close> and
  \<open>List_Lexorder\<close>.

  An element of \<^verbatim>\<open>normalized_figures\<close> is a dict; the check reads it only through
  \<^verbatim>\<open>item.get('playbook_id')\<close>. \<open>None\<close> is a missing (or null) key. The
  \<^verbatim>\<open>value\<close> of an entry is the text of its JSON number, \<open>None\<close> for the null of an
  entry that the extractor left as "Missing in Filing".
\<close>

record figure_item =
  playbook_id :: "string option"
  fi_value :: "string option"

text \<open>
  The statement dict. \<open>normalized_figures = None\<close> means the key is absent;
  \<open>other_keys\<close> lists the remaining keys, so that the empty dict \<^verbatim>\<open>{}\<close> is
  \<open>\<lparr>other_keys = [], normalized_figures = None\<rparr>\<close>. Python's \<^verbatim>\<open>None\<close> payload is
  \<open>None :: statement_payload option\<close>.
\<close>

record statement_payload =
  other_keys :: "string list"
  normalized_figures :: "figure_item list option"

record check_details =
  missing_ids :: "string list option"
  unexpected_ids :: "string list option"
  reason :: "string option"

record check_result =
  status :: string
  details :: "check_details option"

text \<open>Python truthiness of \<^verbatim>\<open>item.get('playbook_id')\<close>: neither \<^verbatim>\<open>None\<close> nor \<^verbatim>\<open>''\<close>.\<close>

fun truthy_str :: "string option \<Rightarrow> bool" where
  "truthy_str None = False"
| "truthy_str (Some s) = (s \<noteq> [])"

text \<open>\<^verbatim>\<open>not parsed_statement_data\<close>: the payload is \<^verbatim>\<open>None\<close> or the empty dict.\<close>

fun payload_falsy :: "statement_payload option \<Rightarrow> bool" where
  "payload_falsy None = True"
| "payload_falsy (Some d) = (other_keys d = [] \<and> normalized_figures d = None)"

text \<open>The set comprehension \<^verbatim>\<open>{item['playbook_id'] for item in ... if item.get('playbook_id')}\<close>.\<close>

definition present_ids :: "figure_item list \<Rightarrow> string set" where
  "present_ids figs = set (map (\<lambda>item. the (playbook_id item)) (filter (\<lambda>item. truthy_str (playbook_id item)) figs))"

text \<open>
  The specification's wording, for comparison: \<open>present = {ids with a value}\<close>, the ids of
  the entries whose value is not null.
\<close>

definition ids_with_value :: "figure_item list \<Rightarrow> string set" where
  "ids_with_value figs =
     set (map (\<lambda>item. the (playbook_id item))
            (filter (\<lambda>item. truthy_str (playbook_id item) \<and> fi_value item \<noteq> None) figs))"

definition not_found_result :: "string list \<Rightarrow> check_result" where
  "not_found_result expected_leaf_ids =
     \<lparr>status = ''FAILURE'',
      details = Some \<lparr>missing_ids = Some expected_leaf_ids, unexpected_ids = None,
                      reason = Some ''Normalized figures array not found.''\<rparr>\<rparr>"

definition run_completeness_check :: "statement_payload option \<Rightarrow> string list \<Rightarrow> check_result" where
  "run_completeness_check parsed_statement_data expected_leaf_ids =
     (if payload_falsy parsed_statement_data then not_found_result expected_leaf_ids
      else case normalized_figures (the parsed_statement_data) of
        None \<Rightarrow> not_found_result expected_leaf_ids
      | Some figs \<Rightarrow>
          (let present = present_ids figs;
               expected_set = set expected_leaf_ids;
               unexpected = sorted_list_of_set (present - expected_set);
               missing = expected_set - present
           in if missing = {}
              then \<lparr>status = ''SUCCESS'',
                    details = (if unexpected \<noteq> []
                               then Some \<lparr>missing_ids = None, unexpected_ids = Some unexpected, reason = None\<rparr>
                               else None)\<rparr>
              else \<lparr>status = ''FAILURE'',
                    details = Some \<lparr>missing_ids = Some (sorted_list_of_set missing),
                                    unexpected_ids = (if unexpected \<noteq> [] then Some unexpected else None),
                                    reason = None\<rparr>\<rparr>))"

text \<open>Reading \<^verbatim>\<open>result['details']['missing_ids']\<close>; \<open>None\<close> when the key (or the dict) is absent.\<close>

definition details_missing_ids :: "check_result \<Rightarrow> string list option" where
  "details_missing_ids r = (case details r of None \<Rightarrow> None | Some d \<Rightarrow> missing_ids d)"

definition details_unexpected_ids :: "check_result \<Rightarrow> string list option" where
  "details_unexpected_ids r = (case details r of None \<Rightarrow> None | Some d \<Rightarrow> unexpected_ids d)"

section \<open>Flattening the taxonomy playbook\<close>

text \<open>
  A playbook node is a YAML mapping with \<^verbatim>\<open>id\<close>, optional \<^verbatim>\<open>children\<close> and optional
  \<^verbatim>\<open>extractable\<close>. \<open>None\<close> is an absent key.
\<close>

datatype node = Node (node_id: string) (children: "node list option") (extractable: "bool option")

text \<open>
  \<^verbatim>\<open>_get_leaf_ids_recursive\<close> of \<^verbatim>\<open>quality_engine/playbook_utils.py\<close>.
  \<^verbatim>\<open>not children\<close> holds for an absent key and for the empty list;
  \<^verbatim>\<open>node.get('extractable', True)\<close> is false only for an explicit \<^verbatim>\<open>False\<close>.
\<close>

fun get_leaf_ids_recursive :: "node list \<Rightarrow> string list" where
  "get_leaf_ids_recursive [] = []"
| "get_leaf_ids_recursive (Node i None ex # nodes) =
     (if ex \<noteq> Some False then [i] else []) @ get_leaf_ids_recursive nodes"
| "get_leaf_ids_recursive (Node i (Some []) ex # nodes) =
     (if ex \<noteq> Some False then [i] else []) @ get_leaf_ids_recursive nodes"
| "get_leaf_ids_recursive (Node i (Some (c # cs)) ex # nodes) =
     get_leaf_ids_recursive (c # cs) @ get_leaf_ids_recursive nodes"

text \<open>
  \<^verbatim>\<open>StatementPlaybookLoader._flatten_leaves\<close> of \<^verbatim>\<open>normalization/label_normalizer.py\<close>:
  the inner \<^verbatim>\<open>rec\<close> appends the id of every node without children and never reads
  \<^verbatim>\<open>extractable\<close>.
\<close>

fun flatten_leaves :: "node list \<Rightarrow> string list" where
  "flatten_leaves [] = []"
| "flatten_leaves (Node i None ex # nodes) = [i] @ flatten_leaves nodes"
| "flatten_leaves (Node i (Some []) ex # nodes) = [i] @ flatten_leaves nodes"
| "flatten_leaves (Node i (Some (c # cs)) ex # nodes) =
     flatten_leaves (c # cs) @ flatten_leaves nodes"

text \<open>
  The specification's wording, for comparison: the pre-order listing of all nodes of a
  forest, a node being a leaf when it has no children, and collected when it is a leaf
  not explicitly marked non-extractable.
\<close>

fun preorder :: "node list \<Rightarrow> node list" where
  "preorder [] = []"
| "preorder (Node i None ex # nodes) = Node i None ex # preorder nodes"
| "preorder (Node i (Some cs) ex # nodes) = Node i (Some cs) ex # preorder cs @ preorder nodes"

definition has_children :: "node \<Rightarrow> bool" where
  "has_children n = (case children n of None \<Rightarrow> False | Some cs \<Rightarrow> cs \<noteq> [])"

definition collected :: "node \<Rightarrow> bool" where
  "collected n = (\<not> has_children n \<and> extractable n \<noteq> Some False)"

section \<open>The oracle client: bounded retry with backoff\<close>

text \<open>
  Embedding of \<^verbatim>\<open>call_gemini_with_retry\<close> of \<^verbatim>\<open>llm/normalizer_client.py\<close>.
  One attempt (build the request, call the API, reject an empty text, clean the text) is
  a function of the attempt number: \<open>None\<close> when anything in the \<^verbatim>\<open>try\<close> block raises
  (timeout, server error, empty response), \<open>Some r\<close> for the returned text. The result is
  paired with the list of \<^verbatim>\<open>time.sleep\<close> durations, in seconds.
\<close>

definition LLM_MAX_RETRIES :: nat where
  "LLM_MAX_RETRIES = 3"

definition LLM_INITIAL_BACKOFF :: nat where
  "LLM_INITIAL_BACKOFF = 5"

datatype llm_error =
    ApiError nat        \<comment> \<open>the exception of the given attempt, re-raised\<close>
  | RuntimeError        \<comment> \<open>the \<^verbatim>\<open>raise\<close> after the loop\<close>

fun retry_loop :: "(nat \<Rightarrow> 'r option) \<Rightarrow> nat list \<Rightarrow> (llm_error + 'r) \<times> nat list" where
  "retry_loop api [] = (Inl RuntimeError, [])"
| "retry_loop api (attempt # rest) =
     (case api attempt of
        Some r \<Rightarrow> (Inr r, [])
      | None \<Rightarrow>
          if attempt + 1 = LLM_MAX_RETRIES then (Inl (ApiError attempt), [])
          else (let wait_time = LLM_INITIAL_BACKOFF * 2 ^ attempt;
                    (res, waits) = retry_loop api rest
                in (res, wait_time # waits)))"

definition call_gemini_with_retry :: "(nat \<Rightarrow> 'r option) \<Rightarrow> (llm_error + 'r) \<times> nat list" where
  "call_gemini_with_retry api = retry_loop api [0..<LLM_MAX_RETRIES]"

text \<open>\<^verbatim>\<open>call_gemini_with_json\<close> forwards to \<^verbatim>\<open>call_gemini_with_retry\<close>; its callers see only the result.\<close>

definition call_gemini_with_json :: "(nat \<Rightarrow> 'r option) \<Rightarrow> llm_error + 'r" where
  "call_gemini_with_json api = fst (call_gemini_with_retry api)"

text \<open>The Python exceptions that the modelled functions raise or catch.\<close>

datatype py_exception = ValueError | KeyError | AttributeError | NoResultFound | LlmFailed llm_error

section \<open>The staging tables\<close>

text \<open>
  The oracle's unit analysis, a JSON object of which \<^verbatim>\<open>parse_llm_unit_analysis\<close> checks
  only the two top-level keys. Every key below them may be missing: a field is \<open>None\<close>
  for an absent key, so that a subscript \<^verbatim>\<open>figure['label']\<close> on it is a \<^verbatim>\<open>KeyError\<close> and a
  \<^verbatim>\<open>.get\<close> its default. A figure's \<^verbatim>\<open>value\<close> is only carried along, never computed with:
  it is kept as the text of the JSON number.
\<close>

record figure =
  label :: "string option"
  fig_value :: "string option"
  representation :: "string option"
  currency_context :: "string option"
  confidence :: "string option"
  reasoning :: "string option"

record statement_analysis =
  statement_type :: "string option"
  standard_mapping :: "string option"
  statement_currency :: "string option"
  figures :: "figure list option"

text \<open>A JSON scalar, for the flag that the code reads through Python's truthiness.\<close>

datatype jvalue = JNull | JBool bool | JNum int | JStr string

fun truthy :: "jvalue \<Rightarrow> bool" where
  "truthy JNull = False"
| "truthy (JBool b) = b"
| "truthy (JNum n) = (n \<noteq> 0)"
| "truthy (JStr s) = (s \<noteq> [])"

record filing_analysis =
  requires_human_review :: "jvalue option"

record unit_analysis =
  filing_analysis :: filing_analysis
  statement_analyses :: "statement_analysis list"

text \<open>A figure of \<^verbatim>\<open>statement_normalized_data\<close>, read for its \<^verbatim>\<open>suspect\<close> markers.\<close>

record original_figure =
  orig_label :: string
  suspect :: "bool option"
  suspect_reason :: "string option"

text \<open>
  A value of \<^verbatim>\<open>statement_normalized_data[scope]\<close>: a dict with figures, or anything else
  (the \<^verbatim>\<open>"NOT_PROVIDED"\<close> sentinel), which \<^verbatim>\<open>isinstance(stmt_content, dict)\<close> skips.
\<close>

datatype stmt_content = NotADict | StmtDict "original_figure list"

record final_entry =
  fe_value :: string
  fe_representation :: "string option"
  fe_currency_context :: "string option"
  fe_suspect :: bool
  fe_suspect_reason :: "string option"

record final_data =
  standalone :: "string \<rightharpoonup> final_entry"
  consolidated :: "string \<rightharpoonup> final_entry"

text \<open>
  \<^verbatim>\<open>StagedNormalizedData.normalized_data\<close>. \<open>unit_normalized_data = Some a\<close> stands for
  \<^verbatim>\<open>{'unit_normalized_data': {'llm_unit_analysis': a}}\<close>, which is what
  \<^verbatim>\<open>apply_unit_normalization_to_data\<close> builds.
\<close>

record normalized_data =
  sn_standalone :: "stmt_content list"
  sn_consolidated :: "stmt_content list"
  unit_normalized_data :: "unit_analysis option"
  label_normalized_data :: "final_data option"

record staged_row =
  doc_id :: nat
  ticker :: string
  fiscal_date :: string
  normalized_data :: normalized_data
  statement_normalized :: bool
  unit_review_status :: string
  label_review_status :: string

record label_mapping =
  raw_label :: string
  industry :: string
  normalized_label :: "string option"
  lm_status :: string
  reviewed_by :: "string option"
  source_doc_id :: nat
  source_statement_key :: string

record classification =
  industry_name :: "string option"

record company =
  company_classification :: "classification option"

text \<open>One statement of \<^verbatim>\<open>ParsedDocument.content['llm_call_2']\<close>.\<close>

record raw_figure =
  rf_label :: string
  rf_value :: string

record parsed_statement =
  ps_statement_type :: "string option"
  ps_currency :: "string option"
  ps_quarter :: "string option"
  ps_figures :: "raw_figure list option"

record parsed_document =
  asset_id :: nat
  llm_call_2 :: "parsed_statement list option"

record suspicious_figure =
  sf_statement_type :: string
  sf_standard_mapping :: string
  sf_label :: string
  sf_value :: string
  sf_representation :: string
  sf_reasoning :: string

record filing_data =
  suspicious_figures :: "suspicious_figure list"
  total_figures_analyzed :: nat
  low_confidence_count :: nat

record unit_review_row =
  ur_doc_id :: nat
  ur_asset_id :: nat
  ur_ticker :: string
  ur_fiscal_date :: string
  llm_analysis :: unit_analysis
  ur_filing_data :: filing_data
  ur_status :: string
  human_corrections :: "unit_analysis option"

text \<open>
  The database: each table is the list of its rows, so that a duplicate key would be
  visible; \<^verbatim>\<open>parsed_documents\<close> and \<^verbatim>\<open>company_master\<close> are only read, by key.
\<close>

record db =
  staged :: "staged_row list"
  label_mapping_cache :: "label_mapping list"
  unit_review_queue :: "unit_review_row list"
  parsed_documents :: "nat \<rightharpoonup> parsed_document"
  company_master :: "string \<rightharpoonup> company"

subsection \<open>The helpers of \<^verbatim>\<open>storage/database.py\<close>\<close>

text \<open>
  \<^verbatim>\<open>get_label_mapping\<close>: \<^verbatim>\<open>session.get(LabelMapping, (raw_label, industry))\<close>.
\<close>

definition get_label_mapping :: "label_mapping list \<Rightarrow> string \<Rightarrow> string \<Rightarrow> label_mapping option" where
  "get_label_mapping cache l ind = find (\<lambda>m. raw_label m = l \<and> industry m = ind) cache"

text \<open>
  \<^verbatim>\<open>upsert_label_mapping\<close>: \<^verbatim>\<open>INSERT ... ON CONFLICT (raw_label, industry) DO UPDATE\<close> of
  \<^verbatim>\<open>normalized_label\<close>, \<^verbatim>\<open>status\<close>, \<^verbatim>\<open>last_reviewed_at\<close> and \<^verbatim>\<open>reviewed_by\<close> (the last two
  are not among the inserted values, so they become null); \<^verbatim>\<open>source_context\<close> of an existing
  row stays.
\<close>

fun upsert_label_mapping :: "label_mapping \<Rightarrow> label_mapping list \<Rightarrow> label_mapping list" where
  "upsert_label_mapping new [] = [new]"
| "upsert_label_mapping new (m # ms) =
     (if raw_label m = raw_label new \<and> industry m = industry new
      then m\<lparr>normalized_label := normalized_label new, lm_status := lm_status new,
             reviewed_by := reviewed_by new\<rparr> # ms
      else m # upsert_label_mapping new ms)"

definition get_docs_pending_unit_normalization :: "db \<Rightarrow> nat list" where
  "get_docs_pending_unit_normalization d =
     map doc_id (filter (\<lambda>r. statement_normalized r \<and> unit_review_status r = ''PENDING'') (staged d))"

definition get_docs_pending_label_normalization :: "db \<Rightarrow> nat list" where
  "get_docs_pending_label_normalization d =
     map doc_id (filter (\<lambda>r. unit_review_status r \<in> {''APPROVED'', ''AUTO_APPROVED''}
                             \<and> label_review_status r = ''PENDING'') (staged d))"


definition mark_docs_unit_review_status :: "nat list \<Rightarrow> string \<Rightarrow> db \<Rightarrow> db" where
  "mark_docs_unit_review_status doc_ids st d =
     d\<lparr>staged := map (\<lambda>r. if doc_id r \<in> set doc_ids then r\<lparr>unit_review_status := st\<rparr> else r) (staged d)\<rparr>"

definition mark_docs_label_review_status :: "nat list \<Rightarrow> string \<Rightarrow> db \<Rightarrow> db" where
  "mark_docs_label_review_status doc_ids st d =
     d\<lparr>staged := map (\<lambda>r. if doc_id r \<in> set doc_ids then r\<lparr>label_review_status := st\<rparr> else r) (staged d)\<rparr>"

text \<open>
  \<^verbatim>\<open>create_unit_review_record\<close>: \<^verbatim>\<open>INSERT ... ON CONFLICT (doc_id) DO UPDATE\<close> of
  \<^verbatim>\<open>llm_analysis\<close> and \<^verbatim>\<open>filing_data\<close>.
\<close>

fun create_unit_review_record :: "unit_review_row \<Rightarrow> unit_review_row list \<Rightarrow> unit_review_row list" where
  "create_unit_review_record new [] = [new]"
| "create_unit_review_record new (q # qs) =
     (if ur_doc_id q = ur_doc_id new
      then q\<lparr>llm_analysis := llm_analysis new, ur_filing_data := ur_filing_data new\<rparr> # qs
      else q # create_unit_review_record new qs)"

text \<open>\<^verbatim>\<open>session.query(StagedNormalizedData).filter_by(doc_id=doc_id).one_or_none()\<close>.\<close>

definition staged_by_doc_id :: "db \<Rightarrow> nat \<Rightarrow> staged_row option" where
  "staged_by_doc_id d i = find (\<lambda>r. doc_id r = i) (staged d)"

section \<open>Label normalization\<close>

subsection \<open>String operations of Python used by the label normalizer\<close>

text \<open>\<^verbatim>\<open>str.lower\<close>, on the ASCII letters.\<close>

definition lower_char :: "char \<Rightarrow> char" where
  "lower_char c =
     (case map_of (zip ''ABCDEFGHIJKLMNOPQRSTUVWXYZ'' ''abcdefghijklmnopqrstuvwxyz'') c of
        Some l \<Rightarrow> l
      | None \<Rightarrow> c)"

definition lower :: "string \<Rightarrow> string" where
  "lower s = map lower_char s"

text \<open>\<^verbatim>\<open>k in s\<close> for strings: \<open>k\<close> occurs in \<open>s\<close> as a contiguous substring.\<close>

fun contains :: "string \<Rightarrow> string \<Rightarrow> bool" where
  "contains k [] = (k = [])"
| "contains k (c # s) = (take (length k) (c # s) = k \<or> contains k s)"

text \<open>\<^verbatim>\<open>str.strip()\<close>: the ASCII whitespace characters are removed at both ends.\<close>

definition is_space :: "char \<Rightarrow> bool" where
  "is_space c = (c \<in> set [CHR '' '', CHR 0x09, CHR 0x0A, CHR 0x0B, CHR 0x0C, CHR 0x0D,
                            CHR 0x1C, CHR 0x1D, CHR 0x1E, CHR 0x1F])"

definition strip :: "string \<Rightarrow> string" where
  "strip s = rev (dropWhile is_space (rev (dropWhile is_space s)))"

text \<open>\<^verbatim>\<open>" ".join(xs)\<close>.\<close>

fun join_space :: "string list \<Rightarrow> string" where
  "join_space [] = []"
| "join_space [x] = x"
| "join_space (x # y # ys) = x @ '' '' @ join_space (y # ys)"

subsection \<open>\<^verbatim>\<open>StatementPlaybookLoader\<close>\<close>

text \<open>
  \<open>statement_trees\<close> is what \<^verbatim>\<open>_load_all_statements\<close> read from the playbook file:
  the \<^verbatim>\<open>nodes\<close> of each YAML document, by its \<^verbatim>\<open>statement\<close> key. The file is data
  and enters as a parameter.
\<close>

definition get_leaves_for :: "(string \<rightharpoonup> node list) \<Rightarrow> string \<Rightarrow> string list" where
  "get_leaves_for statement_trees statement_key =
     (case statement_trees statement_key of None \<Rightarrow> [] | Some nodes \<Rightarrow> flatten_leaves nodes)"

subsection \<open>Discovery\<close>

text \<open>The JSON context sent with \<^verbatim>\<open>LABEL_NORMALIZATION_PROMPT\<close>.\<close>

record label_request =
  lr_industry :: string
  lr_statement_key :: string
  lr_statement_name :: "string option"
  lr_statement_currency :: "string option"
  standard_names :: "string list"
  raw_labels :: "string list"

text \<open>
  The text the oracle returned, seen through \<^verbatim>\<open>json.loads\<close>: a JSON object from raw
  label to canonical id or null, in the order of \<^verbatim>\<open>.items()\<close>, or anything on which
  \<^verbatim>\<open>json.loads(...)\<close> or \<^verbatim>\<open>.items()\<close> raises.
\<close>

datatype label_response = NotAMapping | Mappings "(string \<times> string option) list"

text \<open>
  The oracle: the outcome of each attempt of the \<open>n\<close>-th call of a sweep, for the request
  sent. Nothing is assumed about it.
\<close>

type_synonym label_oracle = "nat \<Rightarrow> label_request \<Rightarrow> nat \<Rightarrow> label_response option"

text \<open>
  The state a discovery sweep threads through its loops: the cache table (every
  \<^verbatim>\<open>upsert_label_mapping\<close> commits at once), \<^verbatim>\<open>processed_in_this_run\<close>,
  \<^verbatim>\<open>docs_to_update_status\<close>, the log of the requests sent to the oracle, and whether an
  exception has left the loop.
\<close>

record disc_state =
  cache :: "label_mapping list"
  processed_in_this_run :: "(string \<times> string) set"
  docs_to_update_status :: "nat list"
  calls :: "label_request list"
  raised :: bool

text \<open>The mapping from \<^verbatim>\<open>standard_mapping\<close> to the playbook statement key; \<open>None\<close> is the \<^verbatim>\<open>continue\<close> of the unknown statement.\<close>

definition statement_key_for :: "string \<Rightarrow> figure list \<Rightarrow> string option" where
  "statement_key_for std_map figs =
     (let std_lower = lower std_map in
      if contains ''pnl'' std_lower \<or> contains ''income'' std_lower then Some ''pnl''
      else if contains ''balance'' std_lower then Some ''balance_sheet''
      else if contains ''cash'' std_lower then
        (let labels_text = join_space (map (\<lambda>f. lower (case label f of None \<Rightarrow> [] | Some l \<Rightarrow> l)) figs) in
         if list_ex (\<lambda>k. contains k labels_text)
              [''profit before'', ''extraordinary'', ''adjustments'', ''working capital'']
         then Some ''cash_flow_indirect''
         else if list_ex (\<lambda>k. contains k labels_text)
              [''receipts from'', ''payments to'', ''operating activities - receipts'']
         then Some ''cash_flow_direct''
         else Some ''cash_flow_indirect'')
      else None)"

text \<open>
  \<^verbatim>\<open>raw_labels_this_stmt\<close>: the distinct stripped labels of the figures with a non-empty
  label. Python builds a set and lists it in an unspecified order; here it is the order of
  first occurrence.
\<close>

definition raw_labels_of :: "figure list \<Rightarrow> string list" where
  "raw_labels_of figs =
     remdups (map (\<lambda>f. strip (case label f of None \<Rightarrow> [] | Some l \<Rightarrow> l))
                  (filter (\<lambda>f. truthy_str (label f)) figs))"

definition new_labels_to_process :: "disc_state \<Rightarrow> string \<Rightarrow> string list \<Rightarrow> string list" where
  "new_labels_to_process st ind ls =
     filter (\<lambda>l. (l, ind) \<notin> processed_in_this_run st \<and> get_label_mapping (cache st) l ind = None) ls"

text \<open>The body of \<^verbatim>\<open>for label, mapped_label in llm_mappings.items()\<close>.\<close>

definition store_mapping :: "nat \<Rightarrow> string \<Rightarrow> string \<Rightarrow> string \<times> string option \<Rightarrow> disc_state \<Rightarrow> disc_state" where
  "store_mapping doc ind stmt_key lm st =
     st\<lparr>cache := upsert_label_mapping
                    \<lparr>raw_label = fst lm, industry = ind, normalized_label = snd lm,
                     lm_status = ''PENDING_REVIEW'', reviewed_by = None,
                     source_doc_id = doc, source_statement_key = stmt_key\<rparr> (cache st),
        processed_in_this_run := insert (fst lm, ind) (processed_in_this_run st)\<rparr>"

text \<open>The body of \<^verbatim>\<open>for sa in stmt_analyses\<close>.\<close>

definition discover_statement ::
  "bool \<Rightarrow> label_oracle \<Rightarrow> (string \<rightharpoonup> node list) \<Rightarrow> nat \<Rightarrow> string \<Rightarrow> statement_analysis \<Rightarrow> disc_state \<Rightarrow> disc_state" where
  "discover_statement allow_llm oracle statement_trees doc ind sa st =
     (let std_map = (case standard_mapping sa of None \<Rightarrow> [] | Some s \<Rightarrow> s);
          figs = (case figures sa of None \<Rightarrow> [] | Some fs \<Rightarrow> fs)
      in if figs = [] then st
         else case statement_key_for std_map figs of
           None \<Rightarrow> st
         | Some stmt_key \<Rightarrow>
            (let names = get_leaves_for statement_trees stmt_key in
             if names = [] then st
             else (let new_labels = new_labels_to_process st ind (raw_labels_of figs) in
               if new_labels = [] then st
               else if \<not> allow_llm then st
               else (let request = \<lparr>lr_industry = ind, lr_statement_key = stmt_key,
                                    lr_statement_name = statement_type sa,
                                    lr_statement_currency = statement_currency sa,
                                    standard_names = names, raw_labels = new_labels\<rparr>;
                         st1 = st\<lparr>calls := calls st @ [request]\<rparr>
                     in case call_gemini_with_json (oracle (length (calls st)) request) of
                          Inl e \<Rightarrow> st1
                        | Inr NotAMapping \<Rightarrow> st1
                        | Inr (Mappings llm_mappings) \<Rightarrow>
                            fold (store_mapping doc ind stmt_key) llm_mappings st1))))"

text \<open>
  The body of \<^verbatim>\<open>for doc_id in doc_ids\<close>. A company without classification makes
  \<^verbatim>\<open>company_context.classification.industry_name\<close> raise, which leaves the loop and the
  function (there is only a \<^verbatim>\<open>finally\<close>).
\<close>

definition discover_document ::
  "bool \<Rightarrow> label_oracle \<Rightarrow> (string \<rightharpoonup> node list) \<Rightarrow> db \<Rightarrow> nat \<Rightarrow> disc_state \<Rightarrow> disc_state" where
  "discover_document allow_llm oracle statement_trees d doc st =
     (case staged_by_doc_id d doc of
        None \<Rightarrow> st
      | Some record \<Rightarrow>
         (case company_master d (ticker record) of
            None \<Rightarrow> st
          | Some company_context \<Rightarrow>
             (case company_classification company_context of
                None \<Rightarrow> st\<lparr>raised := True\<rparr>
              | Some cl \<Rightarrow>
                 (case industry_name cl of
                    None \<Rightarrow> st
                  | Some ind \<Rightarrow>
                     if ind = [] \<or> lower ind \<notin> {''banking'', ''banks''} then st
                     else (let stmt_analyses =
                                 (case unit_normalized_data (normalized_data record) of
                                    None \<Rightarrow> []
                                  | Some a \<Rightarrow> statement_analyses a)
                           in if stmt_analyses = [] then st
                              else (let st1 = fold (discover_statement allow_llm oracle statement_trees doc ind)
                                                stmt_analyses st
                                    in st1\<lparr>docs_to_update_status := docs_to_update_status st1 @ [doc]\<rparr>))))))"

fun discover_documents ::
  "bool \<Rightarrow> label_oracle \<Rightarrow> (string \<rightharpoonup> node list) \<Rightarrow> db \<Rightarrow> nat list \<Rightarrow> disc_state \<Rightarrow> disc_state" where
  "discover_documents allow_llm oracle statement_trees d [] st = st"
| "discover_documents allow_llm oracle statement_trees d (doc # rest) st =
     (let st1 = discover_document allow_llm oracle statement_trees d doc st in
      if raised st1 then st1
      else discover_documents allow_llm oracle statement_trees d rest st1)"

text \<open>
  \<^verbatim>\<open>run_label_normalizer_discovery\<close>. The result is the database after the sweep and
  the final loop state, whose \<open>calls\<close> are the oracle requests made and whose \<open>raised\<close>
  tells that the sweep ended by an exception (the cache rows written before it stay).
\<close>

definition run_label_normalizer_discovery ::
  "bool \<Rightarrow> label_oracle \<Rightarrow> (string \<rightharpoonup> node list) \<Rightarrow> db \<Rightarrow> db \<times> disc_state" where
  "run_label_normalizer_discovery allow_llm oracle statement_trees d =
     (let st0 = \<lparr>cache = label_mapping_cache d, processed_in_this_run = {},
                 docs_to_update_status = [], calls = [], raised = False\<rparr>;
          doc_ids = get_docs_pending_label_normalization d
      in if doc_ids = [] then (d, st0)
         else (let st = discover_documents allow_llm oracle statement_trees d doc_ids st0;
                   d1 = d\<lparr>label_mapping_cache := cache st\<rparr>
               in if raised st then (d1, st)
                  else if docs_to_update_status st \<noteq> []
                  then (mark_docs_label_review_status (docs_to_update_status st) ''PENDING_REVIEW'' d1, st)
                  else (d1, st)))"

subsection \<open>Application\<close>
















text \<open>
  For the proofs about discovery: the keys of the cache table, and the relation between
  the loop state before and after some steps of a sweep that the steps keep the keys
  unique, only add keys, and only add requests whose labels were not cached before.
\<close>

definition cache_keys :: "label_mapping list \<Rightarrow> (string \<times> string) set" where
  "cache_keys c = set (map (\<lambda>m. (raw_label m, industry m)) c)"

definition discovery_steps :: "disc_state \<Rightarrow> disc_state \<Rightarrow> bool" where
  "discovery_steps st st' =
     ((distinct (map (\<lambda>m. (raw_label m, industry m)) (cache st))
         \<longrightarrow> distinct (map (\<lambda>m. (raw_label m, industry m)) (cache st')))
      \<and> cache_keys (cache st) \<subseteq> cache_keys (cache st')
      \<and> (\<exists>new. calls st' = calls st @ new
             \<and> (\<forall>req\<in>set new. \<forall>l\<in>set (raw_labels req). (l, lr_industry req) \<notin> cache_keys (cache st))))"

section \<open>Unit normalization\<close>

text \<open>The analysis context sent with \<^verbatim>\<open>UNIT_ANALYSIS_PROMPT\<close>, built by \<^verbatim>\<open>create_llm_analysis_payload\<close>.\<close>

record request_statement =
  rs_statement_type :: string
  rs_currency :: string
  rs_quarter :: string
  rs_figures :: "raw_figure list"

record unit_request =
  rq_company :: string
  rq_fiscal_date :: string
  statements_with_currency_context :: "request_statement list"

definition create_llm_analysis_payload :: "parsed_document \<Rightarrow> string \<Rightarrow> string \<Rightarrow> unit_request" where
  "create_llm_analysis_payload original_content tk fd =
     \<lparr>rq_company = tk, rq_fiscal_date = fd,
      statements_with_currency_context =
        (case llm_call_2 original_content of
           None \<Rightarrow> []
         | Some stmts \<Rightarrow>
             map (\<lambda>stmt. \<lparr>rs_statement_type = (case ps_statement_type stmt of None \<Rightarrow> [] | Some s \<Rightarrow> s),
                           rs_currency = (case ps_currency stmt of None \<Rightarrow> [] | Some s \<Rightarrow> s),
                           rs_quarter = (case ps_quarter stmt of None \<Rightarrow> [] | Some s \<Rightarrow> s),
                           rs_figures = (case ps_figures stmt of None \<Rightarrow> [] | Some fs \<Rightarrow> fs)\<rparr>) stmts)\<rparr>"

text \<open>
  The response text seen through \<^verbatim>\<open>json.loads\<close>: not decodable, or a JSON object whose
  two sections are present or not.
\<close>

datatype unit_response =
    Undecodable
  | Decoded (resp_filing_analysis: "filing_analysis option")
            (resp_statement_analyses: "statement_analysis list option")

text \<open>\<^verbatim>\<open>parse_llm_unit_analysis\<close>: both required keys, or \<^verbatim>\<open>ValueError\<close>.\<close>

fun parse_llm_unit_analysis :: "unit_response \<Rightarrow> py_exception + unit_analysis" where
  "parse_llm_unit_analysis Undecodable = Inl ValueError"
| "parse_llm_unit_analysis (Decoded (Some fa) (Some sas)) =
     Inr \<lparr>filing_analysis = fa, statement_analyses = sas\<rparr>"
| "parse_llm_unit_analysis (Decoded _ _) = Inl ValueError"

type_synonym unit_oracle = "nat \<Rightarrow> unit_request \<Rightarrow> nat \<Rightarrow> unit_response option"

text \<open>
  The dict that \<^verbatim>\<open>determine_review_requirement\<close> appends for one figure: \<open>Inr None\<close>
  when the figure's confidence is not \<^verbatim>\<open>low\<close>, a \<^verbatim>\<open>KeyError\<close> when a subscripted key
  is missing.
\<close>

definition suspicious_entry :: "statement_analysis \<Rightarrow> figure \<Rightarrow> py_exception + suspicious_figure option" where
  "suspicious_entry stmt_analysis fig =
     (case confidence fig of
        None \<Rightarrow> Inl KeyError
      | Some c \<Rightarrow>
          if c = ''low''
          then (case (statement_type stmt_analysis, label fig, fig_value fig, representation fig) of
                  (Some st, Some l, Some v, Some r) \<Rightarrow>
                    Inr (Some \<lparr>sf_statement_type = st,
                               sf_standard_mapping =
                                 (case standard_mapping stmt_analysis of None \<Rightarrow> ''unknown'' | Some s \<Rightarrow> s),
                               sf_label = l, sf_value = v, sf_representation = r,
                               sf_reasoning =
                                 (case reasoning fig of None \<Rightarrow> ''Low confidence from LLM'' | Some s \<Rightarrow> s)\<rparr>)
                | _ \<Rightarrow> Inl KeyError)
          else Inr None)"

text \<open>The inner loop \<^verbatim>\<open>for figure in stmt_analysis['figures']\<close>.\<close>

fun scan_figures ::
  "statement_analysis \<Rightarrow> figure list \<Rightarrow> suspicious_figure list \<Rightarrow> py_exception + suspicious_figure list" where
  "scan_figures stmt_analysis [] suspicious = Inr suspicious"
| "scan_figures stmt_analysis (fig # rest) suspicious =
     (case suspicious_entry stmt_analysis fig of
        Inl e \<Rightarrow> Inl e
      | Inr None \<Rightarrow> scan_figures stmt_analysis rest suspicious
      | Inr (Some sf) \<Rightarrow> scan_figures stmt_analysis rest (suspicious @ [sf]))"

text \<open>The outer loop \<^verbatim>\<open>for stmt_analysis in analysis['statement_analyses']\<close>.\<close>

fun scan_statements ::
  "statement_analysis list \<Rightarrow> suspicious_figure list \<Rightarrow> py_exception + suspicious_figure list" where
  "scan_statements [] suspicious = Inr suspicious"
| "scan_statements (stmt_analysis # rest) suspicious =
     (case figures stmt_analysis of
        None \<Rightarrow> Inl KeyError
      | Some figs \<Rightarrow>
         (case scan_figures stmt_analysis figs suspicious of
            Inl e \<Rightarrow> Inl e
          | Inr suspicious1 \<Rightarrow> scan_statements rest suspicious1))"

text \<open>
  \<^verbatim>\<open>determine_review_requirement\<close>. The first component is the truth value of
  \<^verbatim>\<open>len(suspicious_figures) > 0 or filing_requires_review\<close>, which is all its caller tests.
\<close>

definition determine_review_requirement :: "unit_analysis \<Rightarrow> py_exception + bool \<times> suspicious_figure list" where
  "determine_review_requirement analysis =
     (case scan_statements (statement_analyses analysis) [] of
        Inl e \<Rightarrow> Inl e
      | Inr suspicious \<Rightarrow>
          (let filing_requires_review =
                 (case requires_human_review (filing_analysis analysis) of None \<Rightarrow> False | Some v \<Rightarrow> truthy v)
           in Inr (length suspicious > 0 \<or> filing_requires_review, suspicious)))"

text \<open>
  The specification's wording, for comparison: the figures of an analysis whose confidence
  is \<^verbatim>\<open>low\<close>, statement by statement.
\<close>

definition low_confidence_figures :: "unit_analysis \<Rightarrow> figure list" where
  "low_confidence_figures analysis =
     concat (map (\<lambda>stmt. filter (\<lambda>fig. confidence fig = Some ''low'')
                                 (case figures stmt of None \<Rightarrow> [] | Some figs \<Rightarrow> figs))
                 (statement_analyses analysis))"

text \<open>
  \<^verbatim>\<open>process_unit_normalization_discovery\<close>: the status it returns, the database after
  it, and the requests it sent to the oracle. \<open>api\<close> gives the outcome of each attempt for
  a request. Every exception is caught and answered by \<^verbatim>\<open>'PENDING'\<close>.
\<close>

definition process_unit_normalization_discovery ::
  "(unit_request \<Rightarrow> nat \<Rightarrow> unit_response option) \<Rightarrow> db \<Rightarrow> nat \<Rightarrow> string \<times> db \<times> unit_request list" where
  "process_unit_normalization_discovery api d doc =
     (case staged_by_doc_id d doc of
        None \<Rightarrow> (''PENDING'', d, [])
      | Some staged_data \<Rightarrow>
         (case parsed_documents d doc of
            None \<Rightarrow> (''PENDING'', d, [])
          | Some parsed_doc \<Rightarrow>
             (let request = create_llm_analysis_payload parsed_doc (ticker staged_data) (fiscal_date staged_data) in
              case call_gemini_with_json (api request) of
                Inl e \<Rightarrow> (''PENDING'', d, [request])
              | Inr response \<Rightarrow>
                 (case parse_llm_unit_analysis response of
                    Inl e \<Rightarrow> (''PENDING'', d, [request])
                  | Inr analysis \<Rightarrow>
                     (case determine_review_requirement analysis of
                        Inl e \<Rightarrow> (''PENDING'', d, [request])
                      | Inr (requires_review, suspicious) \<Rightarrow>
                      if requires_review
                      then (''PENDING_REVIEW'',
                            d\<lparr>unit_review_queue :=
                                create_unit_review_record
                                  \<lparr>ur_doc_id = doc, ur_asset_id = asset_id parsed_doc,
                                   ur_ticker = ticker staged_data, ur_fiscal_date = fiscal_date staged_data,
                                   llm_analysis = analysis,
                                   ur_filing_data =
                                     \<lparr>suspicious_figures = suspicious,
                                      total_figures_analyzed =
                                        sum_list (map (\<lambda>stmt. case figures stmt of None \<Rightarrow> 0 | Some figs \<Rightarrow> length figs)
                                                      (statement_analyses analysis)),
                                      low_confidence_count = length suspicious\<rparr>,
                                   ur_status = ''PENDING_REVIEW'', human_corrections = None\<rparr>
                                  (unit_review_queue d)\<rparr>,
                            [request])
                      else (''AUTO_APPROVED'',
                            d\<lparr>staged :=
                                map (\<lambda>r. if doc_id r = doc
                                          then r\<lparr>normalized_data :=
                                                   (normalized_data r)\<lparr>unit_normalized_data := Some analysis\<rparr>\<rparr>
                                          else r) (staged d)\<rparr>,
                            [request]))))))"

text \<open>\<^verbatim>\<open>status_updates\<close>: a dict from status to the list of documents, in insertion order.\<close>

fun add_status :: "string \<Rightarrow> nat \<Rightarrow> (string \<times> nat list) list \<Rightarrow> (string \<times> nat list) list" where
  "add_status st doc [] = [(st, [doc])]"
| "add_status st doc ((s, ds) # rest) =
     (if s = st then (s, ds @ [doc]) # rest else (s, ds) # add_status st doc rest)"

text \<open>The loop \<^verbatim>\<open>for doc_id in doc_ids_to_process\<close>.\<close>

fun process_documents ::
  "unit_oracle \<Rightarrow> nat list \<Rightarrow> (string \<times> nat list) list \<times> db \<times> unit_request list
     \<Rightarrow> (string \<times> nat list) list \<times> db \<times> unit_request list" where
  "process_documents oracle [] acc = acc"
| "process_documents oracle (doc # rest) (status_updates, d, reqs) =
     (case process_unit_normalization_discovery (oracle (length reqs)) d doc of
        (st, d1, new_reqs) \<Rightarrow>
          process_documents oracle rest (add_status st doc status_updates, d1, reqs @ new_reqs))"

text \<open>
  \<^verbatim>\<open>run_unit_normalizer_discovery\<close>: the database after the sweep and the requests sent.
  \<^verbatim>\<open>doc_ids[:0]\<close> is \<open>take 0 doc_ids\<close>.
\<close>

definition run_unit_normalizer_discovery :: "bool \<Rightarrow> unit_oracle \<Rightarrow> db \<Rightarrow> db \<times> unit_request list" where
  "run_unit_normalizer_discovery allow_llm oracle d =
     (if \<not> allow_llm then (d, [])
      else (let doc_ids = get_docs_pending_unit_normalization d in
            if doc_ids = [] then (d, [])
            else (let doc_ids_to_process = take 0 doc_ids in
                  case process_documents oracle doc_ids_to_process ([], d, []) of
                    (status_updates, d1, reqs) \<Rightarrow>
                      (fold (\<lambda>(st, doc_list) db'.
                               if doc_list \<noteq> [] then mark_docs_unit_review_status doc_list st db' else db')
                            status_updates d1,
                       reqs))))"

section \<open>The quality engine's waterfall reset\<close>

text \<open>A row of \<^verbatim>\<open>quality_engine_runs\<close>; a null version or reason is \<open>None\<close>.\<close>

record quality_engine_run =
  run_id :: nat
  qe_doc_id :: nat
  stage_1_status :: string
  stage_2_status :: string
  stage_3_status :: string
  stage_4_status :: string
  stage_5_status :: string
  stage_1_version :: "string option"
  stage_2_version :: "string option"
  stage_3_version :: "string option"
  stage_4_version :: "string option"
  stage_5_version :: "string option"
  failure_reason :: "string option"
  qe_details :: "check_details option"

definition CURRENT_STAGE_1_VERSION :: string where
  "CURRENT_STAGE_1_VERSION = ''1.0''"

text \<open>
  The \<^verbatim>\<open>WHERE\<close> clause of \<^verbatim>\<open>stmt_reset_s1\<close>. In SQL a null version makes
  \<^verbatim>\<open>stage_1_version != '1.0'\<close> unknown, so such a row is not selected.
\<close>

definition stage_1_drifted :: "quality_engine_run \<Rightarrow> bool" where
  "stage_1_drifted r =
     (stage_1_status r = ''PASSED'' \<and>
      (case stage_1_version r of None \<Rightarrow> False | Some v \<Rightarrow> v \<noteq> CURRENT_STAGE_1_VERSION))"

text \<open>The \<^verbatim>\<open>VALUES\<close> of \<^verbatim>\<open>stmt_reset_s1\<close>.\<close>

definition reset_from_stage_1 :: "quality_engine_run \<Rightarrow> quality_engine_run" where
  "reset_from_stage_1 r =
     r\<lparr>stage_1_status := ''PENDING'', stage_1_version := None,
       stage_2_status := ''PENDING'', stage_2_version := None,
       stage_3_status := ''PENDING'', stage_3_version := None,
       stage_4_status := ''PENDING'', stage_4_version := None,
       stage_5_status := ''PENDING'', stage_5_version := None,
       failure_reason := Some ''Resetting due to new Stage 1 version'',
       qe_details := None\<rparr>"

text \<open>
  \<^verbatim>\<open>trigger_waterfall_resets\<close> on the table: the one \<^verbatim>\<open>UPDATE\<close> it executes. Stages 2
  to 5 have no check in the source ("Add checks for other stages here in the future").
\<close>

definition trigger_waterfall_resets :: "quality_engine_run list \<Rightarrow> quality_engine_run list" where
  "trigger_waterfall_resets runs = map (\<lambda>r. if stage_1_drifted r then reset_from_stage_1 r else r) runs"

text \<open>Status and version of stage \<open>k\<close>, for \<open>k\<close> from 1 to 5.\<close>

definition stage_status :: "nat \<Rightarrow> quality_engine_run \<Rightarrow> string" where
  "stage_status k r =
     (if k = 1 then stage_1_status r else if k = 2 then stage_2_status r
      else if k = 3 then stage_3_status r else if k = 4 then stage_4_status r
      else stage_5_status r)"

definition stage_version :: "nat \<Rightarrow> quality_engine_run \<Rightarrow> string option" where
  "stage_version k r =
     (if k = 1 then stage_1_version r else if k = 2 then stage_2_version r
      else if k = 3 then stage_3_version r else if k = 4 then stage_4_version r
      else stage_5_version r)"

section \<open>Properties of the completeness check\<close>

text \<open>The present ids, read off the list: the non-empty \<^verbatim>\<open>playbook_id\<close> values of its entries.\<close>

lemma present_ids_iff:
  "x \<in> present_ids figs \<longleftrightarrow> x \<noteq> [] \<and> (\<exists>item\<in>set figs. playbook_id item = Some x)"
proof
  assume "x \<in> present_ids figs"
  then obtain item where "item \<in> set figs" "truthy_str (playbook_id item)" "x = the (playbook_id item)"
    by (auto simp: present_ids_def)
  then show "x \<noteq> [] \<and> (\<exists>item\<in>set figs. playbook_id item = Some x)"
    by (cases "playbook_id item") auto
next
  assume "x \<noteq> [] \<and> (\<exists>item\<in>set figs. playbook_id item = Some x)"
  then obtain item where "item \<in> set figs" "playbook_id item = Some x" "x \<noteq> []"
    by blast
  then show "x \<in> present_ids figs"
    by (force simp: present_ids_def)
qed

lemma present_ids_eq:
  "present_ids figs = {x. x \<noteq> [] \<and> (\<exists>item\<in>set figs. playbook_id item = Some x)}"
  using present_ids_iff by blast

lemma finite_present_ids: "finite (present_ids figs)"
  by (simp add: present_ids_def)

lemma ids_with_value_subset: "ids_with_value figs \<subseteq> present_ids figs"
  by (auto simp: ids_with_value_def present_ids_def)

text \<open>
  Claim C1, as stated, with the present set of the specification, \<open>{ids with a value}\<close>:
  the status is \<^verbatim>\<open>SUCCESS\<close> if and only if \<open>E \<subseteq> P\<close>. It fails on the list that the
  extractor's template produces for a line missing in the filing: the one expected id is
  there with a null value, so \<open>P\<close> is empty and \<open>E \<subseteq> P\<close> is false, and the check
  answers \<^verbatim>\<open>SUCCESS\<close>.
\<close>

theorem completeness_counts_null_values:
  "ids_with_value [\<lparr>playbook_id = Some ''revenue'', fi_value = None\<rparr>] = {}
   \<and> \<not> set [''revenue''] \<subseteq> ids_with_value [\<lparr>playbook_id = Some ''revenue'', fi_value = None\<rparr>]
   \<and> status (run_completeness_check
        (Some \<lparr>other_keys = [], normalized_figures = Some [\<lparr>playbook_id = Some ''revenue'', fi_value = None\<rparr>]\<rparr>)
        [''revenue'']) = ''SUCCESS''
   \<and> details (run_completeness_check
        (Some \<lparr>other_keys = [], normalized_figures = Some [\<lparr>playbook_id = Some ''revenue'', fi_value = None\<rparr>]\<rparr>)
        [''revenue'']) = None"
  by (simp add: ids_with_value_def run_completeness_check_def present_ids_def)

text \<open>
  Claim C1, amended: \<open>P\<close> is the set of the non-empty \<^verbatim>\<open>playbook_id\<close> values occurring in
  the \<^verbatim>\<open>normalized_figures\<close> list, whether or not the entry carries a value. With \<open>E\<close> the
  set of expected leaf ids: the status is \<^verbatim>\<open>SUCCESS\<close> exactly when \<open>E \<subseteq> P\<close> and
  \<^verbatim>\<open>FAILURE\<close> otherwise; when an expected id is absent, \<^verbatim>\<open>details.missing_ids\<close> is
  \<open>sorted (E - P)\<close>; whenever \<open>P - E\<close> is not empty, \<^verbatim>\<open>details.unexpected_ids\<close> is
  \<open>sorted (P - E)\<close>, in a success as in a failure, and the extra ids play no part in the
  status.
\<close>

theorem completeness_correct:
  assumes "normalized_figures d = Some figs"
      and "P = {x. x \<noteq> [] \<and> (\<exists>item\<in>set figs. playbook_id item = Some x)}"
  shows "(status (run_completeness_check (Some d) expected) = ''SUCCESS''
            \<longleftrightarrow> set expected \<subseteq> P)
       \<and> (status (run_completeness_check (Some d) expected) = ''FAILURE''
            \<longleftrightarrow> \<not> set expected \<subseteq> P)
       \<and> (\<not> set expected \<subseteq> P \<longrightarrow>
            details_missing_ids (run_completeness_check (Some d) expected)
              = Some (sorted_list_of_set (set expected - P)))
       \<and> (P - set expected \<noteq> {} \<longrightarrow>
            details_unexpected_ids (run_completeness_check (Some d) expected)
              = Some (sorted_list_of_set (P - set expected)))"
proof -
  have P: "P = present_ids figs"
    using assms(2) present_ids_eq [of figs] by simp
  show ?thesis
    unfolding P
    using assms(1) finite_present_ids [of figs]
    by (auto simp: run_completeness_check_def Let_def details_missing_ids_def details_unexpected_ids_def)
qed

lemma sorted_two_strings: "sorted_list_of_set {''staff_cost'', ''other_exp''} = [''other_exp'', ''staff_cost'']"
proof -
  have "{''staff_cost'', ''other_exp''} = set [''staff_cost'', ''other_exp'']" by simp
  then have "sorted_list_of_set {''staff_cost'', ''other_exp''} = sort (remdups [''staff_cost'', ''other_exp''])"
    by (simp only: sorted_list_of_set_sort_remdups)
  also have "\<dots> = [''other_exp'', ''staff_cost'']"
    by (simp add: less_eq_char_def)
  finally show ?thesis .
qed

theorem completeness_correct_witness:
  "status (run_completeness_check
      (Some \<lparr>other_keys = [], normalized_figures =
          Some [\<lparr>playbook_id = Some ''revenue'', fi_value = Some ''10''\<rparr>,
                \<lparr>playbook_id = Some ''zzz'', fi_value = None\<rparr>,
                \<lparr>playbook_id = Some [], fi_value = Some ''3''\<rparr>,
                \<lparr>playbook_id = None, fi_value = Some ''4''\<rparr>]\<rparr>)
      [''revenue'', ''staff_cost'', ''other_exp'']) = ''FAILURE''
   \<and> details_missing_ids (run_completeness_check
      (Some \<lparr>other_keys = [], normalized_figures =
          Some [\<lparr>playbook_id = Some ''revenue'', fi_value = Some ''10''\<rparr>,
                \<lparr>playbook_id = Some ''zzz'', fi_value = None\<rparr>,
                \<lparr>playbook_id = Some [], fi_value = Some ''3''\<rparr>,
                \<lparr>playbook_id = None, fi_value = Some ''4''\<rparr>]\<rparr>)
      [''revenue'', ''staff_cost'', ''other_exp'']) = Some [''other_exp'', ''staff_cost'']
   \<and> details_unexpected_ids (run_completeness_check
      (Some \<lparr>other_keys = [], normalized_figures =
          Some [\<lparr>playbook_id = Some ''revenue'', fi_value = Some ''10''\<rparr>,
                \<lparr>playbook_id = Some ''zzz'', fi_value = None\<rparr>,
                \<lparr>playbook_id = Some [], fi_value = Some ''3''\<rparr>,
                \<lparr>playbook_id = None, fi_value = Some ''4''\<rparr>]\<rparr>)
      [''revenue'', ''staff_cost'', ''other_exp'']) = Some [''zzz'']"
proof -
  let ?figs = "[\<lparr>playbook_id = Some ''revenue'', fi_value = Some ''10''\<rparr>,
                \<lparr>playbook_id = Some ''zzz'', fi_value = None\<rparr>,
                \<lparr>playbook_id = Some [], fi_value = Some ''3''\<rparr>,
                \<lparr>playbook_id = None, fi_value = Some ''4''\<rparr>]"
  let ?d = "\<lparr>other_keys = [], normalized_figures = Some ?figs\<rparr>"
  let ?e = "[''revenue'', ''staff_cost'', ''other_exp'']"
  let ?P = "{x. x \<noteq> [] \<and> (\<exists>item\<in>set ?figs. playbook_id item = Some x)}"
  have h: "normalized_figures ?d = Some ?figs" by simp
  have P: "?P = {''revenue'', ''zzz''}"
    by auto
  have m: "set ?e - ?P = {''staff_cost'', ''other_exp''}"
    unfolding P by auto
  have u: "?P - set ?e = {''zzz''}"
    unfolding P by auto
  have ns: "\<not> set ?e \<subseteq> ?P"
    unfolding P by simp
  have ne: "?P - set ?e \<noteq> {}"
    unfolding u by simp
  have su: "sorted_list_of_set {''zzz''} = [''zzz'']"
    by simp
  note T = completeness_correct [OF h refl, of ?e]
  from T ns have c1: "status (run_completeness_check (Some ?d) ?e) = ''FAILURE''"
    by blast
  from T ns have "details_missing_ids (run_completeness_check (Some ?d) ?e)
      = Some (sorted_list_of_set (set ?e - ?P))"
    by blast
  then have c2: "details_missing_ids (run_completeness_check (Some ?d) ?e) = Some [''other_exp'', ''staff_cost'']"
    by (simp only: m sorted_two_strings)
  from T ne have "details_unexpected_ids (run_completeness_check (Some ?d) ?e)
      = Some (sorted_list_of_set (?P - set ?e))"
    by blast
  then have c3: "details_unexpected_ids (run_completeness_check (Some ?d) ?e) = Some [''zzz'']"
    by (simp only: u su)
  from c1 c2 c3 show ?thesis by blast
qed

text \<open>
  Claim C8. When the payload is \<^verbatim>\<open>None\<close>, the empty dict, or a dict without a
  \<^verbatim>\<open>normalized_figures\<close> key, the result is \<^verbatim>\<open>FAILURE\<close> and \<^verbatim>\<open>details.missing_ids\<close> is the
  expected leaf-id list itself, in full and as given; it is never \<^verbatim>\<open>SUCCESS\<close>.
\<close>

theorem completeness_without_figures:
  assumes "\<forall>d. p = Some d \<longrightarrow> normalized_figures d = None"
  shows "status (run_completeness_check p expected) = ''FAILURE''
       \<and> status (run_completeness_check p expected) \<noteq> ''SUCCESS''
       \<and> details_missing_ids (run_completeness_check p expected) = Some expected"
  using assms
  by (cases p) (auto simp: run_completeness_check_def not_found_result_def details_missing_ids_def)

theorem completeness_without_figures_witness:
  "status (run_completeness_check (Some \<lparr>other_keys = [''currency''], normalized_figures = None\<rparr>)
        [''revenue'', ''opex'', ''revenue'']) = ''FAILURE''
   \<and> details_missing_ids (run_completeness_check (Some \<lparr>other_keys = [''currency''], normalized_figures = None\<rparr>)
        [''revenue'', ''opex'', ''revenue'']) = Some [''revenue'', ''opex'', ''revenue'']
   \<and> status (run_completeness_check (Some \<lparr>other_keys = [], normalized_figures = None\<rparr>) []) = ''FAILURE''
   \<and> status (run_completeness_check None []) = ''FAILURE''"
proof -
  have a: "\<forall>d. Some \<lparr>other_keys = [''currency''], normalized_figures = None\<rparr> = Some d \<longrightarrow> normalized_figures d = None"
    by auto
  have b: "\<forall>d. Some \<lparr>other_keys = [], normalized_figures = None\<rparr> = Some d \<longrightarrow> normalized_figures d = None"
    by auto
  have c: "\<forall>d::statement_payload. None = Some d \<longrightarrow> normalized_figures d = None"
    by simp
  from completeness_without_figures [OF a, of "[''revenue'', ''opex'', ''revenue'']"]
       completeness_without_figures [OF b, of "[]"]
       completeness_without_figures [OF c, of "[]"]
  show ?thesis by simp
qed

section \<open>Properties of the two flatteners\<close>

text \<open>
  The quality engine's collector is the specification's flattening: the ids, in pre-order,
  of the nodes without children that are not marked non-extractable.
\<close>

lemma get_leaf_ids_recursive_preorder:
  "get_leaf_ids_recursive nodes = map node_id (filter collected (preorder nodes))"
  by (induction nodes rule: get_leaf_ids_recursive.induct) (auto simp: collected_def has_children_def)

text \<open>The label mapper's loader collects, in pre-order, every node without children.\<close>

lemma flatten_leaves_preorder:
  "flatten_leaves nodes = map node_id (filter (\<lambda>n. \<not> has_children n) (preorder nodes))"
  by (induction nodes rule: flatten_leaves.induct) (auto simp: has_children_def)

lemma get_leaf_ids_recursive_example:
  "get_leaf_ids_recursive
     [Node ''revenue'' None None,
      Node ''opex'' (Some [Node ''staff_cost'' None None, Node ''other_exp'' (Some []) (Some True)]) None]
   = [''revenue'', ''staff_cost'', ''other_exp'']"
  by simp

text \<open>
  Claim C9. Flattening collects exactly the childless nodes not marked non-extractable, in
  both implementations. The quality engine's collector does
  (\<open>get_leaf_ids_recursive_preorder\<close>); the label mapper's loader does not: on a childless
  node marked \<^verbatim>\<open>extractable: false\<close> it returns the node's id, where the collector returns
  nothing.
\<close>

theorem flatten_leaves_collects_non_extractable:
  "flatten_leaves [Node ''total_assets'' None (Some False)] = [''total_assets'']
   \<and> get_leaf_ids_recursive [Node ''total_assets'' None (Some False)] = []
   \<and> \<not> collected (Node ''total_assets'' None (Some False))"
  by (simp add: collected_def)

section \<open>Properties of the waterfall reset\<close>

lemma reset_not_drifted: "\<not> stage_1_drifted (reset_from_stage_1 r)"
  by (simp add: stage_1_drifted_def reset_from_stage_1_def)

lemma trigger_waterfall_resets_idem:
  "trigger_waterfall_resets (trigger_waterfall_resets runs) = trigger_waterfall_resets runs"
  unfolding trigger_waterfall_resets_def map_map comp_def
  by (rule map_cong [OF refl]) (simp add: reset_not_drifted)

lemma reset_stage_status:
  "stage_status k (reset_from_stage_1 r) = ''PENDING''"
  by (simp add: stage_status_def reset_from_stage_1_def)

lemma reset_stage_version:
  "stage_version k (reset_from_stage_1 r) = None"
  by (simp add: stage_version_def reset_from_stage_1_def)

text \<open>
  Claim C3, as stated: a run whose stage \<open>k\<close> is \<^verbatim>\<open>PASSED\<close> with a stamped version other
  than the deployed one has stage \<open>k\<close> and all later stages reset by one sweep. It fails
  for \<open>k = 2\<close>: the sweep reads only stage 1. Whatever the deployed stage-2 version is, it
  differs from \<^verbatim>\<open>0.8\<close> or from \<^verbatim>\<open>0.9\<close>, and the sweep leaves both runs as they are, with
  stage 2 still \<^verbatim>\<open>PASSED\<close> at its old version.
\<close>

theorem waterfall_reset_ignores_stage_2:
  "trigger_waterfall_resets
     [\<lparr>run_id = 1, qe_doc_id = 1,
       stage_1_status = ''PASSED'', stage_2_status = ''PASSED'', stage_3_status = ''PENDING'',
       stage_4_status = ''PENDING'', stage_5_status = ''PENDING'',
       stage_1_version = Some ''1.0'', stage_2_version = Some ''0.8'', stage_3_version = None,
       stage_4_version = None, stage_5_version = None, failure_reason = None, qe_details = None\<rparr>,
      \<lparr>run_id = 2, qe_doc_id = 2,
       stage_1_status = ''PASSED'', stage_2_status = ''PASSED'', stage_3_status = ''PENDING'',
       stage_4_status = ''PENDING'', stage_5_status = ''PENDING'',
       stage_1_version = Some ''1.0'', stage_2_version = Some ''0.9'', stage_3_version = None,
       stage_4_version = None, stage_5_version = None, failure_reason = None, qe_details = None\<rparr>]
   = [\<lparr>run_id = 1, qe_doc_id = 1,
       stage_1_status = ''PASSED'', stage_2_status = ''PASSED'', stage_3_status = ''PENDING'',
       stage_4_status = ''PENDING'', stage_5_status = ''PENDING'',
       stage_1_version = Some ''1.0'', stage_2_version = Some ''0.8'', stage_3_version = None,
       stage_4_version = None, stage_5_version = None, failure_reason = None, qe_details = None\<rparr>,
      \<lparr>run_id = 2, qe_doc_id = 2,
       stage_1_status = ''PASSED'', stage_2_status = ''PASSED'', stage_3_status = ''PENDING'',
       stage_4_status = ''PENDING'', stage_5_status = ''PENDING'',
       stage_1_version = Some ''1.0'', stage_2_version = Some ''0.9'', stage_3_version = None,
       stage_4_version = None, stage_5_version = None, failure_reason = None, qe_details = None\<rparr>]"
  by (simp add: trigger_waterfall_resets_def stage_1_drifted_def CURRENT_STAGE_1_VERSION_def)

text \<open>
  Claim C3, amended to stage 1, the only stage the sweep checks. A run whose stage 1 is
  \<^verbatim>\<open>PASSED\<close> with a stamped (non-null) version other than \<^verbatim>\<open>CURRENT_STAGE_1_VERSION\<close> has all
  five stages set to \<^verbatim>\<open>PENDING\<close> with their versions cleared, the reason string
  recorded and the details cleared, its \<^verbatim>\<open>run_id\<close> and \<^verbatim>\<open>doc_id\<close> being kept (so the row is
  exactly the reset of the old one); no stage precedes stage 1; every other run is left
  unchanged; and a second sweep changes nothing.
\<close>

theorem waterfall_reset_stage_1:
  assumes "i < length runs"
  shows "length (trigger_waterfall_resets runs) = length runs
       \<and> (stage_1_status (runs ! i) = ''PASSED'' \<and> stage_1_version (runs ! i) = Some v
            \<and> v \<noteq> CURRENT_STAGE_1_VERSION \<longrightarrow>
            (\<forall>k. stage_status k (trigger_waterfall_resets runs ! i) = ''PENDING''
                \<and> stage_version k (trigger_waterfall_resets runs ! i) = None)
            \<and> failure_reason (trigger_waterfall_resets runs ! i)
                 = Some ''Resetting due to new Stage 1 version''
            \<and> qe_details (trigger_waterfall_resets runs ! i) = None
            \<and> run_id (trigger_waterfall_resets runs ! i) = run_id (runs ! i)
            \<and> qe_doc_id (trigger_waterfall_resets runs ! i) = qe_doc_id (runs ! i)
            \<and> trigger_waterfall_resets runs ! i
                 = \<lparr>run_id = run_id (runs ! i), qe_doc_id = qe_doc_id (runs ! i),
                    stage_1_status = ''PENDING'', stage_2_status = ''PENDING'',
                    stage_3_status = ''PENDING'', stage_4_status = ''PENDING'',
                    stage_5_status = ''PENDING'',
                    stage_1_version = None, stage_2_version = None, stage_3_version = None,
                    stage_4_version = None, stage_5_version = None,
                    failure_reason = Some ''Resetting due to new Stage 1 version'',
                    qe_details = None\<rparr>)
       \<and> (\<not> stage_1_drifted (runs ! i) \<longrightarrow> trigger_waterfall_resets runs ! i = runs ! i)
       \<and> trigger_waterfall_resets (trigger_waterfall_resets runs) = trigger_waterfall_resets runs"
proof -
  have drift: "stage_1_drifted (runs ! i)"
    if "stage_1_status (runs ! i) = ''PASSED''" "stage_1_version (runs ! i) = Some v"
       "v \<noteq> CURRENT_STAGE_1_VERSION"
    using that by (simp add: stage_1_drifted_def)
  have nth: "trigger_waterfall_resets runs ! i
      = (if stage_1_drifted (runs ! i) then reset_from_stage_1 (runs ! i) else runs ! i)"
    using assms by (simp add: trigger_waterfall_resets_def)
  have len: "length (trigger_waterfall_resets runs) = length runs"
    by (simp add: trigger_waterfall_resets_def)
  have fr: "failure_reason (reset_from_stage_1 (runs ! i)) = Some ''Resetting due to new Stage 1 version''"
           "qe_details (reset_from_stage_1 (runs ! i)) = None"
           "run_id (reset_from_stage_1 (runs ! i)) = run_id (runs ! i)"
           "qe_doc_id (reset_from_stage_1 (runs ! i)) = qe_doc_id (runs ! i)"
    by (simp_all add: reset_from_stage_1_def)
  have whole: "reset_from_stage_1 (runs ! i)
      = \<lparr>run_id = run_id (runs ! i), qe_doc_id = qe_doc_id (runs ! i),
         stage_1_status = ''PENDING'', stage_2_status = ''PENDING'',
         stage_3_status = ''PENDING'', stage_4_status = ''PENDING'',
         stage_5_status = ''PENDING'',
         stage_1_version = None, stage_2_version = None, stage_3_version = None,
         stage_4_version = None, stage_5_version = None,
         failure_reason = Some ''Resetting due to new Stage 1 version'',
         qe_details = None\<rparr>"
    by (cases "runs ! i") (simp add: reset_from_stage_1_def)
  show ?thesis
  proof (cases "stage_1_drifted (runs ! i)")
    case True
    then have eq: "trigger_waterfall_resets runs ! i = reset_from_stage_1 (runs ! i)"
      using nth by simp
    have st: "\<forall>k. stage_status k (trigger_waterfall_resets runs ! i) = ''PENDING''
                \<and> stage_version k (trigger_waterfall_resets runs ! i) = None"
      unfolding eq by (simp add: reset_stage_status reset_stage_version)
    have rest: "failure_reason (trigger_waterfall_resets runs ! i) = Some ''Resetting due to new Stage 1 version''"
        "qe_details (trigger_waterfall_resets runs ! i) = None"
        "run_id (trigger_waterfall_resets runs ! i) = run_id (runs ! i)"
        "qe_doc_id (trigger_waterfall_resets runs ! i) = qe_doc_id (runs ! i)"
      unfolding eq by (rule fr)+
    have w: "trigger_waterfall_resets runs ! i
        = \<lparr>run_id = run_id (runs ! i), qe_doc_id = qe_doc_id (runs ! i),
           stage_1_status = ''PENDING'', stage_2_status = ''PENDING'',
           stage_3_status = ''PENDING'', stage_4_status = ''PENDING'',
           stage_5_status = ''PENDING'',
           stage_1_version = None, stage_2_version = None, stage_3_version = None,
           stage_4_version = None, stage_5_version = None,
           failure_reason = Some ''Resetting due to new Stage 1 version'',
           qe_details = None\<rparr>"
      unfolding eq by (rule whole)
    from True len st rest w trigger_waterfall_resets_idem [of runs] show ?thesis
      by blast
  next
    case False
    then have eq: "trigger_waterfall_resets runs ! i = runs ! i"
      using nth by simp
    from False drift have nd: "\<not> (stage_1_status (runs ! i) = ''PASSED'' \<and> stage_1_version (runs ! i) = Some v
            \<and> v \<noteq> CURRENT_STAGE_1_VERSION)"
      by blast
    from nd eq len trigger_waterfall_resets_idem [of runs] show ?thesis
      by blast
  qed
qed

theorem waterfall_reset_stage_1_witness:
  "stage_status 1 (trigger_waterfall_resets
     [\<lparr>run_id = 1, qe_doc_id = 42,
       stage_1_status = ''PASSED'', stage_2_status = ''PASSED'', stage_3_status = ''FAILED'',
       stage_4_status = ''PENDING'', stage_5_status = ''PENDING'',
       stage_1_version = Some ''0.9'', stage_2_version = Some ''2.1'', stage_3_version = None,
       stage_4_version = None, stage_5_version = None, failure_reason = None,
       qe_details = Some \<lparr>missing_ids = Some [''revenue''], unexpected_ids = None, reason = None\<rparr>\<rparr>] ! 0)
     = ''PENDING''
   \<and> stage_status 2 (trigger_waterfall_resets
     [\<lparr>run_id = 1, qe_doc_id = 42,
       stage_1_status = ''PASSED'', stage_2_status = ''PASSED'', stage_3_status = ''FAILED'',
       stage_4_status = ''PENDING'', stage_5_status = ''PENDING'',
       stage_1_version = Some ''0.9'', stage_2_version = Some ''2.1'', stage_3_version = None,
       stage_4_version = None, stage_5_version = None, failure_reason = None,
       qe_details = Some \<lparr>missing_ids = Some [''revenue''], unexpected_ids = None, reason = None\<rparr>\<rparr>] ! 0)
     = ''PENDING''
   \<and> stage_version 2 (trigger_waterfall_resets
     [\<lparr>run_id = 1, qe_doc_id = 42,
       stage_1_status = ''PASSED'', stage_2_status = ''PASSED'', stage_3_status = ''FAILED'',
       stage_4_status = ''PENDING'', stage_5_status = ''PENDING'',
       stage_1_version = Some ''0.9'', stage_2_version = Some ''2.1'', stage_3_version = None,
       stage_4_version = None, stage_5_version = None, failure_reason = None,
       qe_details = Some \<lparr>missing_ids = Some [''revenue''], unexpected_ids = None, reason = None\<rparr>\<rparr>] ! 0)
     = None
   \<and> failure_reason (trigger_waterfall_resets
     [\<lparr>run_id = 1, qe_doc_id = 42,
       stage_1_status = ''PASSED'', stage_2_status = ''PASSED'', stage_3_status = ''FAILED'',
       stage_4_status = ''PENDING'', stage_5_status = ''PENDING'',
       stage_1_version = Some ''0.9'', stage_2_version = Some ''2.1'', stage_3_version = None,
       stage_4_version = None, stage_5_version = None, failure_reason = None,
       qe_details = Some \<lparr>missing_ids = Some [''revenue''], unexpected_ids = None, reason = None\<rparr>\<rparr>] ! 0)
     = Some ''Resetting due to new Stage 1 version''
   \<and> qe_details (trigger_waterfall_resets
     [\<lparr>run_id = 1, qe_doc_id = 42,
       stage_1_status = ''PASSED'', stage_2_status = ''PASSED'', stage_3_status = ''FAILED'',
       stage_4_status = ''PENDING'', stage_5_status = ''PENDING'',
       stage_1_version = Some ''0.9'', stage_2_version = Some ''2.1'', stage_3_version = None,
       stage_4_version = None, stage_5_version = None, failure_reason = None,
       qe_details = Some \<lparr>missing_ids = Some [''revenue''], unexpected_ids = None, reason = None\<rparr>\<rparr>] ! 0)
     = None
   \<and> qe_doc_id (trigger_waterfall_resets
     [\<lparr>run_id = 1, qe_doc_id = 42,
       stage_1_status = ''PASSED'', stage_2_status = ''PASSED'', stage_3_status = ''FAILED'',
       stage_4_status = ''PENDING'', stage_5_status = ''PENDING'',
       stage_1_version = Some ''0.9'', stage_2_version = Some ''2.1'', stage_3_version = None,
       stage_4_version = None, stage_5_version = None, failure_reason = None,
       qe_details = Some \<lparr>missing_ids = Some [''revenue''], unexpected_ids = None, reason = None\<rparr>\<rparr>] ! 0)
     = 42"
proof -
  let ?r = "\<lparr>run_id = 1, qe_doc_id = 42,
       stage_1_status = ''PASSED'', stage_2_status = ''PASSED'', stage_3_status = ''FAILED'',
       stage_4_status = ''PENDING'', stage_5_status = ''PENDING'',
       stage_1_version = Some ''0.9'', stage_2_version = Some ''2.1'', stage_3_version = None,
       stage_4_version = None, stage_5_version = None, failure_reason = None,
       qe_details = Some \<lparr>missing_ids = Some [''revenue''], unexpected_ids = None, reason = None\<rparr>\<rparr>"
  have h: "0 < length [?r]" by simp
  have p: "stage_1_status ([?r] ! 0) = ''PASSED'' \<and> stage_1_version ([?r] ! 0) = Some ''0.9''
           \<and> ''0.9'' \<noteq> CURRENT_STAGE_1_VERSION"
    by (simp add: CURRENT_STAGE_1_VERSION_def)
  have q: "qe_doc_id ([?r] ! 0) = 42"
    by simp
  from waterfall_reset_stage_1 [OF h, of "''0.9''"] p
  have "(\<forall>k. stage_status k (trigger_waterfall_resets [?r] ! 0) = ''PENDING''
            \<and> stage_version k (trigger_waterfall_resets [?r] ! 0) = None)
        \<and> failure_reason (trigger_waterfall_resets [?r] ! 0) = Some ''Resetting due to new Stage 1 version''
        \<and> qe_details (trigger_waterfall_resets [?r] ! 0) = None
        \<and> qe_doc_id (trigger_waterfall_resets [?r] ! 0) = qe_doc_id ([?r] ! 0)"
    by blast
  with q show ?thesis by simp
qed

section \<open>Properties of the unit-discovery sweep\<close>

lemma parse_llm_unit_analysis_accepts:
  "parse_llm_unit_analysis r = Inr a
     \<longleftrightarrow> r = Decoded (Some (filing_analysis a)) (Some (statement_analyses a))"
  by (cases r rule: parse_llm_unit_analysis.cases) auto

lemma parse_llm_unit_analysis_rejects:
  "parse_llm_unit_analysis (Decoded None sas) = Inl ValueError"
  "parse_llm_unit_analysis (Decoded fa None) = Inl ValueError"
  by (cases sas; simp) (cases fa; simp)

text \<open>The sweep processes the empty slice \<^verbatim>\<open>doc_ids[:0]\<close>: nothing is sent, nothing changes.\<close>

lemma run_unit_normalizer_discovery_inert:
  "run_unit_normalizer_discovery allow_llm oracle d = (d, [])"
  by (simp add: run_unit_normalizer_discovery_def Let_def)

text \<open>
  Claim C5. A sweep with LLM calls enabled should process every statement-normalized
  document whose \<^verbatim>\<open>unit_review_status\<close> is \<^verbatim>\<open>PENDING\<close>, with one oracle request each. On a
  database holding one such document (\<^verbatim>\<open>doc_id\<close> 7), with an oracle that would answer at
  once, the document is pending, yet the sweep sends no request and leaves the database
  as it was.
\<close>

theorem run_unit_normalizer_discovery_processes_nothing:
  "get_docs_pending_unit_normalization
     \<lparr>staged = [\<lparr>doc_id = 7, ticker = ''HDFCBANK'', fiscal_date = ''2024-03-31'',
                  normalized_data = \<lparr>sn_standalone = [], sn_consolidated = [],
                                      unit_normalized_data = None, label_normalized_data = None\<rparr>,
                  statement_normalized = True, unit_review_status = ''PENDING'',
                  label_review_status = ''PENDING''\<rparr>],
      label_mapping_cache = [], unit_review_queue = [],
      parsed_documents = [7 \<mapsto> \<lparr>asset_id = 3, llm_call_2 = Some []\<rparr>],
      company_master = Map.empty\<rparr> = [7]
   \<and> run_unit_normalizer_discovery True
        (\<lambda>n request attempt. Some (Decoded (Some \<lparr>requires_human_review = Some (JBool False)\<rparr>) (Some [])))
     \<lparr>staged = [\<lparr>doc_id = 7, ticker = ''HDFCBANK'', fiscal_date = ''2024-03-31'',
                  normalized_data = \<lparr>sn_standalone = [], sn_consolidated = [],
                                      unit_normalized_data = None, label_normalized_data = None\<rparr>,
                  statement_normalized = True, unit_review_status = ''PENDING'',
                  label_review_status = ''PENDING''\<rparr>],
      label_mapping_cache = [], unit_review_queue = [],
      parsed_documents = [7 \<mapsto> \<lparr>asset_id = 3, llm_call_2 = Some []\<rparr>],
      company_master = Map.empty\<rparr>
   = (\<lparr>staged = [\<lparr>doc_id = 7, ticker = ''HDFCBANK'', fiscal_date = ''2024-03-31'',
                  normalized_data = \<lparr>sn_standalone = [], sn_consolidated = [],
                                      unit_normalized_data = None, label_normalized_data = None\<rparr>,
                  statement_normalized = True, unit_review_status = ''PENDING'',
                  label_review_status = ''PENDING''\<rparr>],
      label_mapping_cache = [], unit_review_queue = [],
      parsed_documents = [7 \<mapsto> \<lparr>asset_id = 3, llm_call_2 = Some []\<rparr>],
      company_master = Map.empty\<rparr>, [])"
  by (simp add: get_docs_pending_unit_normalization_def run_unit_normalizer_discovery_def Let_def)

section \<open>Properties of unit-review gating\<close>

lemma suspicious_entry_low:
  assumes "suspicious_entry stmt fig = Inr x"
  shows "(confidence fig = Some ''low'' \<longrightarrow>
            (\<exists>sf. x = Some sf \<and> label fig = Some (sf_label sf) \<and> fig_value fig = Some (sf_value sf)
                  \<and> representation fig = Some (sf_representation sf)))
       \<and> (confidence fig \<noteq> Some ''low'' \<longrightarrow> x = None)"
  using assms
  by (auto simp: suspicious_entry_def split: option.splits if_splits)

lemma scan_figures_low:
  "scan_figures stmt figs acc = Inr res \<Longrightarrow>
     map (\<lambda>s. (Some (sf_label s), Some (sf_value s), Some (sf_representation s))) res
   = map (\<lambda>s. (Some (sf_label s), Some (sf_value s), Some (sf_representation s))) acc
     @ map (\<lambda>f. (label f, fig_value f, representation f)) (filter (\<lambda>f. confidence f = Some ''low'') figs)"
proof (induction figs arbitrary: acc)
  case Nil
  then show ?case by simp
next
  case (Cons f fs)
  from Cons.prems obtain x where x: "suspicious_entry stmt f = Inr x"
    by (auto split: sum.splits)
  show ?case
  proof (cases x)
    case None
    with x Cons.prems have "scan_figures stmt fs acc = Inr res" by simp
    from Cons.IH [OF this] suspicious_entry_low [OF x] None show ?thesis by auto
  next
    case (Some sf)
    with x Cons.prems have "scan_figures stmt fs (acc @ [sf]) = Inr res" by simp
    from Cons.IH [OF this] suspicious_entry_low [OF x] Some show ?thesis by auto
  qed
qed

lemma scan_statements_low:
  "scan_statements stmts acc = Inr res \<Longrightarrow>
     map (\<lambda>s. (Some (sf_label s), Some (sf_value s), Some (sf_representation s))) res
   = map (\<lambda>s. (Some (sf_label s), Some (sf_value s), Some (sf_representation s))) acc
     @ map (\<lambda>f. (label f, fig_value f, representation f))
         (concat (map (\<lambda>stmt. filter (\<lambda>fig. confidence fig = Some ''low'')
                                 (case figures stmt of None \<Rightarrow> [] | Some figs \<Rightarrow> figs)) stmts))"
proof (induction stmts arbitrary: acc)
  case Nil
  then show ?case by simp
next
  case (Cons s ss)
  from Cons.prems obtain figs acc1 where f: "figures s = Some figs"
     and a: "scan_figures s figs acc = Inr acc1" and r: "scan_statements ss acc1 = Inr res"
    by (auto split: option.splits sum.splits)
  from Cons.IH [OF r] scan_figures_low [OF a] f show ?case by simp
qed

lemma suspicious_are_low_confidence:
  assumes "determine_review_requirement analysis = Inr (req, susp)"
  shows "map (\<lambda>s. (Some (sf_label s), Some (sf_value s), Some (sf_representation s))) susp
       = map (\<lambda>f. (label f, fig_value f, representation f)) (low_confidence_figures analysis)"
proof -
  from assms have "scan_statements (statement_analyses analysis) [] = Inr susp"
    by (auto simp: determine_review_requirement_def Let_def split: sum.splits)
  from scan_statements_low [OF this] show ?thesis
    by (simp add: low_confidence_figures_def)
qed

lemma review_required_iff:
  assumes "determine_review_requirement analysis = Inr (req, susp)"
  shows "req \<longleftrightarrow> low_confidence_figures analysis \<noteq> []
            \<or> (\<exists>v. requires_human_review (filing_analysis analysis) = Some v \<and> truthy v)"
proof -
  have "length susp = length (low_confidence_figures analysis)"
    using arg_cong [OF suspicious_are_low_confidence [OF assms], of length] by simp
  then have "length susp > 0 \<longleftrightarrow> low_confidence_figures analysis \<noteq> []"
    by simp
  with assms show ?thesis
    by (auto simp: determine_review_requirement_def Let_def split: sum.splits option.splits)
qed

lemma create_unit_review_record_own:
  assumes "distinct (map ur_doc_id qs)"
  shows "\<exists>row. filter (\<lambda>q. ur_doc_id q = ur_doc_id new) (create_unit_review_record new qs) = [row]
             \<and> llm_analysis row = llm_analysis new \<and> ur_filing_data row = ur_filing_data new"
  using assms
proof (induction qs)
  case Nil
  then show ?case by simp
next
  case (Cons q qs)
  show ?case
  proof (cases "ur_doc_id q = ur_doc_id new")
    case True
    from Cons.prems have "ur_doc_id q \<notin> ur_doc_id ` set qs"
      by simp
    with True have "\<forall>x\<in>set qs. ur_doc_id x \<noteq> ur_doc_id new"
      by (metis imageI)
    then have "filter (\<lambda>x. ur_doc_id x = ur_doc_id new) qs = []"
      by (simp add: filter_empty_conv)
    with True show ?thesis by simp
  next
    case False
    with Cons show ?thesis by simp
  qed
qed

lemma create_unit_review_record_others:
  "filter (\<lambda>q. ur_doc_id q \<noteq> ur_doc_id new) (create_unit_review_record new qs)
     = filter (\<lambda>q. ur_doc_id q \<noteq> ur_doc_id new) qs"
  by (induction qs) auto

text \<open>
  What \<^verbatim>\<open>process_unit_normalization_discovery\<close> does for one document once the oracle has
  answered with an analysis on which \<^verbatim>\<open>determine_review_requirement\<close> returns: review is
  required exactly when a figure has confidence \<^verbatim>\<open>low\<close> or the filing flag is truthy; then
  the status returned is \<^verbatim>\<open>PENDING_REVIEW\<close>, the staged rows are untouched and the queue
  holds exactly one row of the document, with the low-confidence figures and their count;
  otherwise the status is \<^verbatim>\<open>AUTO_APPROVED\<close>, the queue is untouched and the analysis is
  written into the payload of the document's staged row and of no other.
\<close>

lemma unit_discovery_gating:
  assumes sd: "staged_by_doc_id d doc = Some sd"
      and pd: "parsed_documents d doc = Some pd"
      and call: "call_gemini_with_json (api (create_llm_analysis_payload pd (ticker sd) (fiscal_date sd))) = Inr resp"
      and parse: "parse_llm_unit_analysis resp = Inr analysis"
      and det: "determine_review_requirement analysis = Inr (req, susp)"
      and uniq: "distinct (map ur_doc_id (unit_review_queue d))"
      and run: "process_unit_normalization_discovery api d doc = (st, d', reqs)"
  shows "(req \<longleftrightarrow> low_confidence_figures analysis \<noteq> []
                \<or> (\<exists>v. requires_human_review (filing_analysis analysis) = Some v \<and> truthy v))
       \<and> (req \<longrightarrow>
            st = ''PENDING_REVIEW'' \<and> staged d' = staged d
            \<and> (\<exists>row. filter (\<lambda>q. ur_doc_id q = doc) (unit_review_queue d') = [row]
                  \<and> llm_analysis row = analysis
                  \<and> map (\<lambda>s. (Some (sf_label s), Some (sf_value s), Some (sf_representation s)))
                        (suspicious_figures (ur_filing_data row))
                      = map (\<lambda>f. (label f, fig_value f, representation f)) (low_confidence_figures analysis)
                  \<and> low_confidence_count (ur_filing_data row) = length (suspicious_figures (ur_filing_data row)))
            \<and> filter (\<lambda>q. ur_doc_id q \<noteq> doc) (unit_review_queue d')
                = filter (\<lambda>q. ur_doc_id q \<noteq> doc) (unit_review_queue d))
       \<and> (\<not> req \<longrightarrow>
            st = ''AUTO_APPROVED'' \<and> unit_review_queue d' = unit_review_queue d
            \<and> staged d' = map (\<lambda>r. if doc_id r = doc
                                     then r\<lparr>normalized_data :=
                                              (normalized_data r)\<lparr>unit_normalized_data := Some analysis\<rparr>\<rparr>
                                     else r) (staged d))"
proof (cases req)
  case True
  define new where "new = \<lparr>ur_doc_id = doc, ur_asset_id = asset_id pd,
       ur_ticker = ticker sd, ur_fiscal_date = fiscal_date sd, llm_analysis = analysis,
       ur_filing_data = \<lparr>suspicious_figures = susp,
          total_figures_analyzed =
            sum_list (map (\<lambda>stmt. case figures stmt of None \<Rightarrow> 0 | Some figs \<Rightarrow> length figs)
                          (statement_analyses analysis)),
          low_confidence_count = length susp\<rparr>,
       ur_status = ''PENDING_REVIEW'', human_corrections = None\<rparr>"
  have res: "st = ''PENDING_REVIEW''"
       "d' = d\<lparr>unit_review_queue := create_unit_review_record new (unit_review_queue d)\<rparr>"
    using run True sd pd call parse det
    by (auto simp: process_unit_normalization_discovery_def Let_def new_def)
  have id: "ur_doc_id new = doc" by (simp add: new_def)
  from create_unit_review_record_own [OF uniq, of new]
  obtain row where row: "filter (\<lambda>q. ur_doc_id q = doc) (create_unit_review_record new (unit_review_queue d)) = [row]"
      "llm_analysis row = llm_analysis new" "ur_filing_data row = ur_filing_data new"
    unfolding id by blast
  have q: "\<exists>row. filter (\<lambda>q. ur_doc_id q = doc) (unit_review_queue d') = [row]
                  \<and> llm_analysis row = analysis
                  \<and> map (\<lambda>s. (Some (sf_label s), Some (sf_value s), Some (sf_representation s)))
                        (suspicious_figures (ur_filing_data row))
                      = map (\<lambda>f. (label f, fig_value f, representation f)) (low_confidence_figures analysis)
                  \<and> low_confidence_count (ur_filing_data row) = length (suspicious_figures (ur_filing_data row))"
    using row suspicious_are_low_confidence [OF det]
    by (intro exI [of _ row]) (simp add: res new_def)
  have others: "filter (\<lambda>q. ur_doc_id q \<noteq> doc) (unit_review_queue d')
                = filter (\<lambda>q. ur_doc_id q \<noteq> doc) (unit_review_queue d)"
    using create_unit_review_record_others [of new "unit_review_queue d"] by (simp add: res id)
  have st_same: "staged d' = staged d" by (simp add: res)
  show ?thesis
    using True review_required_iff [OF det] res(1) st_same q others by blast
next
  case False
  have res: "st = ''AUTO_APPROVED''"
       "d' = d\<lparr>staged := map (\<lambda>r. if doc_id r = doc
                 then r\<lparr>normalized_data := (normalized_data r)\<lparr>unit_normalized_data := Some analysis\<rparr>\<rparr>
                 else r) (staged d)\<rparr>"
    using run False sd pd call parse det
    by (auto simp: process_unit_normalization_discovery_def Let_def)
  show ?thesis
    using False review_required_iff [OF det] res by simp
qed

text \<open>
  An analysis that lacks a subscripted key (a figure without \<^verbatim>\<open>confidence\<close>, a statement
  without \<^verbatim>\<open>figures\<close>) makes \<^verbatim>\<open>determine_review_requirement\<close> raise; the document is
  answered by \<^verbatim>\<open>'PENDING'\<close> and nothing is written.
\<close>

lemma unit_discovery_key_error:
  assumes "staged_by_doc_id d doc = Some sd" and "parsed_documents d doc = Some pd"
      and "call_gemini_with_json (api (create_llm_analysis_payload pd (ticker sd) (fiscal_date sd))) = Inr resp"
      and "parse_llm_unit_analysis resp = Inr analysis"
      and "determine_review_requirement analysis = Inl e"
  shows "process_unit_normalization_discovery api d doc
           = (''PENDING'', d, [create_llm_analysis_payload pd (ticker sd) (fiscal_date sd)])"
  using assms by (simp add: process_unit_normalization_discovery_def)

lemma determine_review_requirement_missing_confidence:
  "determine_review_requirement
     \<lparr>filing_analysis = \<lparr>requires_human_review = None\<rparr>,
      statement_analyses =
        [\<lparr>statement_type = Some ''P&L'', standard_mapping = None, statement_currency = None,
          figures = Some [\<lparr>label = Some ''Net NPA'', fig_value = Some ''0.4'', representation = Some ''ratio'',
                           currency_context = None, confidence = None, reasoning = None\<rparr>]\<rparr>]\<rparr>
   = Inl KeyError"
  by (simp add: determine_review_requirement_def suspicious_entry_def)

text \<open>
  Claim C4. A document that unit discovery processes with a low-confidence figure should
  become \<^verbatim>\<open>PENDING_REVIEW\<close> with one queue row. The per-document function does answer so
  (\<open>unit_discovery_gating\<close>), but the sweep, which alone writes \<^verbatim>\<open>unit_review_status\<close>, never
  calls it: on a database whose one pending document (\<^verbatim>\<open>doc_id\<close> 7) gets an analysis with
  exactly one figure of confidence \<^verbatim>\<open>low\<close>, the function alone would return
  \<^verbatim>\<open>PENDING_REVIEW\<close> and queue one row with \<^verbatim>\<open>low_confidence_count\<close> 1, while the sweep leaves the
  document \<^verbatim>\<open>PENDING\<close>, the queue empty and the oracle uncalled.
\<close>

theorem unit_discovery_sweep_gates_nothing:
  "get_docs_pending_unit_normalization
      \<lparr>staged = [\<lparr>doc_id = 7, ticker = ''HDFCBANK'', fiscal_date = ''2024-03-31'',
                   normalized_data = \<lparr>sn_standalone = [], sn_consolidated = [],
                                       unit_normalized_data = None, label_normalized_data = None\<rparr>,
                   statement_normalized = True, unit_review_status = ''PENDING'',
                   label_review_status = ''PENDING''\<rparr>],
       label_mapping_cache = [], unit_review_queue = [],
       parsed_documents = [7 \<mapsto> \<lparr>asset_id = 3, llm_call_2 = None\<rparr>],
       company_master = Map.empty\<rparr> = [7]
   \<and> fst (process_unit_normalization_discovery
      ((\<lambda>n request attempt. Some (Decoded (Some \<lparr>requires_human_review = Some (JBool False)\<rparr>)
        (Some [\<lparr>statement_type = Some ''Standalone P&L'', standard_mapping = Some ''standalone_pnl'',
            statement_currency = Some ''in lacs'',
            figures = Some [\<lparr>label = Some ''Net NPA'', fig_value = Some ''0.4'',
                             representation = Some ''ratio'', currency_context = None,
                             confidence = Some ''low'', reasoning = None\<rparr>]\<rparr>]))) 0)
      \<lparr>staged = [\<lparr>doc_id = 7, ticker = ''HDFCBANK'', fiscal_date = ''2024-03-31'',
                   normalized_data = \<lparr>sn_standalone = [], sn_consolidated = [],
                                       unit_normalized_data = None, label_normalized_data = None\<rparr>,
                   statement_normalized = True, unit_review_status = ''PENDING'',
                   label_review_status = ''PENDING''\<rparr>],
       label_mapping_cache = [], unit_review_queue = [],
       parsed_documents = [7 \<mapsto> \<lparr>asset_id = 3, llm_call_2 = None\<rparr>],
       company_master = Map.empty\<rparr> 7) = ''PENDING_REVIEW''
   \<and> map (\<lambda>q. (ur_doc_id q, low_confidence_count (ur_filing_data q),
                 map sf_label (suspicious_figures (ur_filing_data q))))
        (unit_review_queue (fst (snd (process_unit_normalization_discovery
      ((\<lambda>n request attempt. Some (Decoded (Some \<lparr>requires_human_review = Some (JBool False)\<rparr>)
        (Some [\<lparr>statement_type = Some ''Standalone P&L'', standard_mapping = Some ''standalone_pnl'',
            statement_currency = Some ''in lacs'',
            figures = Some [\<lparr>label = Some ''Net NPA'', fig_value = Some ''0.4'',
                             representation = Some ''ratio'', currency_context = None,
                             confidence = Some ''low'', reasoning = None\<rparr>]\<rparr>]))) 0)
      \<lparr>staged = [\<lparr>doc_id = 7, ticker = ''HDFCBANK'', fiscal_date = ''2024-03-31'',
                   normalized_data = \<lparr>sn_standalone = [], sn_consolidated = [],
                                       unit_normalized_data = None, label_normalized_data = None\<rparr>,
                   statement_normalized = True, unit_review_status = ''PENDING'',
                   label_review_status = ''PENDING''\<rparr>],
       label_mapping_cache = [], unit_review_queue = [],
       parsed_documents = [7 \<mapsto> \<lparr>asset_id = 3, llm_call_2 = None\<rparr>],
       company_master = Map.empty\<rparr> 7)))) = [(7, 1, [''Net NPA''])]
   \<and> map unit_review_status (staged (fst (run_unit_normalizer_discovery True
      (\<lambda>n request attempt. Some (Decoded (Some \<lparr>requires_human_review = Some (JBool False)\<rparr>)
        (Some [\<lparr>statement_type = Some ''Standalone P&L'', standard_mapping = Some ''standalone_pnl'',
            statement_currency = Some ''in lacs'',
            figures = Some [\<lparr>label = Some ''Net NPA'', fig_value = Some ''0.4'',
                             representation = Some ''ratio'', currency_context = None,
                             confidence = Some ''low'', reasoning = None\<rparr>]\<rparr>])))
      \<lparr>staged = [\<lparr>doc_id = 7, ticker = ''HDFCBANK'', fiscal_date = ''2024-03-31'',
                   normalized_data = \<lparr>sn_standalone = [], sn_consolidated = [],
                                       unit_normalized_data = None, label_normalized_data = None\<rparr>,
                   statement_normalized = True, unit_review_status = ''PENDING'',
                   label_review_status = ''PENDING''\<rparr>],
       label_mapping_cache = [], unit_review_queue = [],
       parsed_documents = [7 \<mapsto> \<lparr>asset_id = 3, llm_call_2 = None\<rparr>],
       company_master = Map.empty\<rparr>))) = [''PENDING'']
   \<and> unit_review_queue (fst (run_unit_normalizer_discovery True
      (\<lambda>n request attempt. Some (Decoded (Some \<lparr>requires_human_review = Some (JBool False)\<rparr>)
        (Some [\<lparr>statement_type = Some ''Standalone P&L'', standard_mapping = Some ''standalone_pnl'',
            statement_currency = Some ''in lacs'',
            figures = Some [\<lparr>label = Some ''Net NPA'', fig_value = Some ''0.4'',
                             representation = Some ''ratio'', currency_context = None,
                             confidence = Some ''low'', reasoning = None\<rparr>]\<rparr>])))
      \<lparr>staged = [\<lparr>doc_id = 7, ticker = ''HDFCBANK'', fiscal_date = ''2024-03-31'',
                   normalized_data = \<lparr>sn_standalone = [], sn_consolidated = [],
                                       unit_normalized_data = None, label_normalized_data = None\<rparr>,
                   statement_normalized = True, unit_review_status = ''PENDING'',
                   label_review_status = ''PENDING''\<rparr>],
       label_mapping_cache = [], unit_review_queue = [],
       parsed_documents = [7 \<mapsto> \<lparr>asset_id = 3, llm_call_2 = None\<rparr>],
       company_master = Map.empty\<rparr>)) = []
   \<and> snd (run_unit_normalizer_discovery True
      (\<lambda>n request attempt. Some (Decoded (Some \<lparr>requires_human_review = Some (JBool False)\<rparr>)
        (Some [\<lparr>statement_type = Some ''Standalone P&L'', standard_mapping = Some ''standalone_pnl'',
            statement_currency = Some ''in lacs'',
            figures = Some [\<lparr>label = Some ''Net NPA'', fig_value = Some ''0.4'',
                             representation = Some ''ratio'', currency_context = None,
                             confidence = Some ''low'', reasoning = None\<rparr>]\<rparr>])))
      \<lparr>staged = [\<lparr>doc_id = 7, ticker = ''HDFCBANK'', fiscal_date = ''2024-03-31'',
                   normalized_data = \<lparr>sn_standalone = [], sn_consolidated = [],
                                       unit_normalized_data = None, label_normalized_data = None\<rparr>,
                   statement_normalized = True, unit_review_status = ''PENDING'',
                   label_review_status = ''PENDING''\<rparr>],
       label_mapping_cache = [], unit_review_queue = [],
       parsed_documents = [7 \<mapsto> \<lparr>asset_id = 3, llm_call_2 = None\<rparr>],
       company_master = Map.empty\<rparr>) = []"
  by (simp add: run_unit_normalizer_discovery_inert get_docs_pending_unit_normalization_def
      process_unit_normalization_discovery_def staged_by_doc_id_def call_gemini_with_json_def
      call_gemini_with_retry_def LLM_MAX_RETRIES_def upt_rec determine_review_requirement_def
      suspicious_entry_def create_llm_analysis_payload_def)

section \<open>Properties of the retry client and of a failed oracle call\<close>

lemma call_gemini_with_retry_cases:
  "call_gemini_with_retry api =
     (case api 0 of
        Some r \<Rightarrow> (Inr r, [])
      | None \<Rightarrow>
         (case api 1 of
            Some r \<Rightarrow> (Inr r, [5])
          | None \<Rightarrow>
             (case api 2 of
                Some r \<Rightarrow> (Inr r, [5, 10])
              | None \<Rightarrow> (Inl (ApiError 2), [5, 10]))))"
  by (simp add: call_gemini_with_retry_def LLM_MAX_RETRIES_def LLM_INITIAL_BACKOFF_def upt_rec
      numeral_2_eq_2 split: option.splits)

text \<open>At most three attempts, waits of 5 and then 10 seconds, and the last error is raised.\<close>

lemma call_gemini_with_retry_all_fail:
  "call_gemini_with_retry (\<lambda>attempt. None) = (Inl (ApiError 2), [5, 10])"
  by (simp add: call_gemini_with_retry_cases)

lemma call_gemini_with_retry_bounded:
  "length (snd (call_gemini_with_retry api)) < LLM_MAX_RETRIES"
  by (simp add: call_gemini_with_retry_cases LLM_MAX_RETRIES_def split: option.splits)

text \<open>
  In unit discovery a failed oracle call leaves the database as it was and answers
  \<^verbatim>\<open>'PENDING'\<close>, the status the document already has.
\<close>

lemma unit_discovery_oracle_failure:
  assumes "staged_by_doc_id d doc = Some sd" and "parsed_documents d doc = Some pd"
      and "call_gemini_with_json (api (create_llm_analysis_payload pd (ticker sd) (fiscal_date sd))) = Inl e"
  shows "process_unit_normalization_discovery api d doc
           = (''PENDING'', d, [create_llm_analysis_payload pd (ticker sd) (fiscal_date sd)])"
  using assms by (simp add: process_unit_normalization_discovery_def)

text \<open>
  Claim C7. After the bounded retries of a failing oracle call, the document's phase status
  should be unchanged, so that the next sweep takes the document again. In label discovery
  it is not: for a banking document with one uncached label and an oracle that fails on
  every attempt, the three attempts are made with waits of 5 and 10 seconds, no cache row
  is written, and the sweep still marks the document \<^verbatim>\<open>PENDING_REVIEW\<close>, after which it is
  no longer among the documents pending label discovery.
\<close>

theorem label_discovery_marks_document_after_oracle_failure:
  "call_gemini_with_retry (\<lambda>attempt. (None :: label_response option)) = (Inl (ApiError 2), [5, 10])
   \<and> map label_review_status (staged (fst (run_label_normalizer_discovery True (\<lambda>n request attempt. None)
     [''pnl'' \<mapsto> [Node ''interest_earned'' None None]]
     \<lparr>staged = [\<lparr>doc_id = 7, ticker = ''HDFCBANK'', fiscal_date = ''2024-03-31'',
         normalized_data =
           \<lparr>sn_standalone = [], sn_consolidated = [],
            unit_normalized_data =
              Some \<lparr>filing_analysis = \<lparr>requires_human_review = Some (JBool False)\<rparr>,
                    statement_analyses =
                      [\<lparr>statement_type = Some ''Standalone Profit and Loss'',
                        standard_mapping = Some ''standalone_pnl'',
                        statement_currency = Some ''in lacs'',
                        figures = Some [\<lparr>label = Some ''Interest Earned'', fig_value = Some ''100'',
                                    representation = Some ''currency'', currency_context = Some ''lacs'',
                                    confidence = Some ''high'', reasoning = None\<rparr>]\<rparr>]\<rparr>,
            label_normalized_data = None\<rparr>,
         statement_normalized = True, unit_review_status = ''AUTO_APPROVED'',
         label_review_status = ''PENDING''\<rparr>],
      label_mapping_cache = [], unit_review_queue = [], parsed_documents = Map.empty,
      company_master = [''HDFCBANK'' \<mapsto> \<lparr>company_classification = Some \<lparr>industry_name = Some ''Banking''\<rparr>\<rparr>]\<rparr>))) = [''PENDING_REVIEW'']
   \<and> label_mapping_cache (fst (run_label_normalizer_discovery True (\<lambda>n request attempt. None)
     [''pnl'' \<mapsto> [Node ''interest_earned'' None None]]
     \<lparr>staged = [\<lparr>doc_id = 7, ticker = ''HDFCBANK'', fiscal_date = ''2024-03-31'',
         normalized_data =
           \<lparr>sn_standalone = [], sn_consolidated = [],
            unit_normalized_data =
              Some \<lparr>filing_analysis = \<lparr>requires_human_review = Some (JBool False)\<rparr>,
                    statement_analyses =
                      [\<lparr>statement_type = Some ''Standalone Profit and Loss'',
                        standard_mapping = Some ''standalone_pnl'',
                        statement_currency = Some ''in lacs'',
                        figures = Some [\<lparr>label = Some ''Interest Earned'', fig_value = Some ''100'',
                                    representation = Some ''currency'', currency_context = Some ''lacs'',
                                    confidence = Some ''high'', reasoning = None\<rparr>]\<rparr>]\<rparr>,
            label_normalized_data = None\<rparr>,
         statement_normalized = True, unit_review_status = ''AUTO_APPROVED'',
         label_review_status = ''PENDING''\<rparr>],
      label_mapping_cache = [], unit_review_queue = [], parsed_documents = Map.empty,
      company_master = [''HDFCBANK'' \<mapsto> \<lparr>company_classification = Some \<lparr>industry_name = Some ''Banking''\<rparr>\<rparr>]\<rparr>)) = []
   \<and> map raw_labels (calls (snd (run_label_normalizer_discovery True (\<lambda>n request attempt. None)
     [''pnl'' \<mapsto> [Node ''interest_earned'' None None]]
     \<lparr>staged = [\<lparr>doc_id = 7, ticker = ''HDFCBANK'', fiscal_date = ''2024-03-31'',
         normalized_data =
           \<lparr>sn_standalone = [], sn_consolidated = [],
            unit_normalized_data =
              Some \<lparr>filing_analysis = \<lparr>requires_human_review = Some (JBool False)\<rparr>,
                    statement_analyses =
                      [\<lparr>statement_type = Some ''Standalone Profit and Loss'',
                        standard_mapping = Some ''standalone_pnl'',
                        statement_currency = Some ''in lacs'',
                        figures = Some [\<lparr>label = Some ''Interest Earned'', fig_value = Some ''100'',
                                    representation = Some ''currency'', currency_context = Some ''lacs'',
                                    confidence = Some ''high'', reasoning = None\<rparr>]\<rparr>]\<rparr>,
            label_normalized_data = None\<rparr>,
         statement_normalized = True, unit_review_status = ''AUTO_APPROVED'',
         label_review_status = ''PENDING''\<rparr>],
      label_mapping_cache = [], unit_review_queue = [], parsed_documents = Map.empty,
      company_master = [''HDFCBANK'' \<mapsto> \<lparr>company_classification = Some \<lparr>industry_name = Some ''Banking''\<rparr>\<rparr>]\<rparr>))) = [[''Interest Earned'']]
   \<and> get_docs_pending_label_normalization (fst (run_label_normalizer_discovery True (\<lambda>n request attempt. None)
     [''pnl'' \<mapsto> [Node ''interest_earned'' None None]]
     \<lparr>staged = [\<lparr>doc_id = 7, ticker = ''HDFCBANK'', fiscal_date = ''2024-03-31'',
         normalized_data =
           \<lparr>sn_standalone = [], sn_consolidated = [],
            unit_normalized_data =
              Some \<lparr>filing_analysis = \<lparr>requires_human_review = Some (JBool False)\<rparr>,
                    statement_analyses =
                      [\<lparr>statement_type = Some ''Standalone Profit and Loss'',
                        standard_mapping = Some ''standalone_pnl'',
                        statement_currency = Some ''in lacs'',
                        figures = Some [\<lparr>label = Some ''Interest Earned'', fig_value = Some ''100'',
                                    representation = Some ''currency'', currency_context = Some ''lacs'',
                                    confidence = Some ''high'', reasoning = None\<rparr>]\<rparr>]\<rparr>,
            label_normalized_data = None\<rparr>,
         statement_normalized = True, unit_review_status = ''AUTO_APPROVED'',
         label_review_status = ''PENDING''\<rparr>],
      label_mapping_cache = [], unit_review_queue = [], parsed_documents = Map.empty,
      company_master = [''HDFCBANK'' \<mapsto> \<lparr>company_classification = Some \<lparr>industry_name = Some ''Banking''\<rparr>\<rparr>]\<rparr>)) = []"
  by (simp add: call_gemini_with_retry_all_fail
      run_label_normalizer_discovery_def get_docs_pending_label_normalization_def
      discover_document_def staged_by_doc_id_def lower_def lower_char_def discover_statement_def
      statement_key_for_def get_leaves_for_def raw_labels_of_def strip_def is_space_def
      new_labels_to_process_def get_label_mapping_def call_gemini_with_json_def
      mark_docs_label_review_status_def Let_def)

section \<open>Properties of label application\<close>























section \<open>Properties of label discovery\<close>

lemma get_label_mapping_None: "get_label_mapping c l ind = None \<longleftrightarrow> (l, ind) \<notin> cache_keys c"
  by (induction c) (auto simp: get_label_mapping_def cache_keys_def)

lemma upsert_keys:
  "cache_keys (upsert_label_mapping new c) = insert (raw_label new, industry new) (cache_keys c)"
  by (induction c) (auto simp: cache_keys_def)

lemma upsert_map_keys:
  "set (map (\<lambda>m. (raw_label m, industry m)) (upsert_label_mapping new c))
     = insert (raw_label new, industry new) (set (map (\<lambda>m. (raw_label m, industry m)) c))"
  using upsert_keys [of new c] by (simp add: cache_keys_def)

lemma upsert_distinct:
  "distinct (map (\<lambda>m. (raw_label m, industry m)) c) \<Longrightarrow>
   distinct (map (\<lambda>m. (raw_label m, industry m)) (upsert_label_mapping new c))"
proof (induction c)
  case Nil
  then show ?case by simp
next
  case (Cons m ms)
  show ?case
  proof (cases "raw_label m = raw_label new \<and> industry m = industry new")
    case True
    with Cons.prems show ?thesis by simp
  next
    case False
    from Cons have d: "distinct (map (\<lambda>m. (raw_label m, industry m)) (upsert_label_mapping new ms))"
      by simp
    from Cons.prems have "(raw_label m, industry m) \<notin> set (map (\<lambda>m. (raw_label m, industry m)) ms)"
      by simp
    with False have "(raw_label m, industry m) \<notin> set (map (\<lambda>m. (raw_label m, industry m)) (upsert_label_mapping new ms))"
      unfolding upsert_map_keys by auto
    with d False show ?thesis by auto
  qed
qed

lemma discovery_steps_refl: "discovery_steps st st"
  by (simp add: discovery_steps_def)

lemma discovery_steps_trans:
  assumes "discovery_steps a b" and "discovery_steps b c"
  shows "discovery_steps a c"
proof -
  from assms(1) obtain n1 where n1: "calls b = calls a @ n1"
      "\<forall>req\<in>set n1. \<forall>l\<in>set (raw_labels req). (l, lr_industry req) \<notin> cache_keys (cache a)"
    unfolding discovery_steps_def by blast
  from assms(2) obtain n2 where n2: "calls c = calls b @ n2"
      "\<forall>req\<in>set n2. \<forall>l\<in>set (raw_labels req). (l, lr_industry req) \<notin> cache_keys (cache b)"
    unfolding discovery_steps_def by blast
  from assms have sub: "cache_keys (cache a) \<subseteq> cache_keys (cache b)" "cache_keys (cache b) \<subseteq> cache_keys (cache c)"
    unfolding discovery_steps_def by blast+
  have "calls c = calls a @ (n1 @ n2)" using n1 n2 by simp
  moreover have "\<forall>req\<in>set (n1 @ n2). \<forall>l\<in>set (raw_labels req). (l, lr_industry req) \<notin> cache_keys (cache a)"
    using n1(2) n2(2) sub(1) by auto
  ultimately have "\<exists>new. calls c = calls a @ new
             \<and> (\<forall>req\<in>set new. \<forall>l\<in>set (raw_labels req). (l, lr_industry req) \<notin> cache_keys (cache a))"
    by blast
  with assms sub show ?thesis
    unfolding discovery_steps_def by blast
qed

lemma discovery_steps_same_cache:
  "cache st' = cache st \<Longrightarrow> calls st' = calls st \<Longrightarrow> discovery_steps st st'"
  by (simp add: discovery_steps_def)

lemma store_mappings_steps:
  "discovery_steps st (fold (store_mapping doc ind stmt_key) ms st)"
proof (induction ms arbitrary: st)
  case Nil
  then show ?case by (simp add: discovery_steps_refl)
next
  case (Cons m ms)
  have "discovery_steps st (store_mapping doc ind stmt_key m st)"
    by (auto simp: discovery_steps_def store_mapping_def upsert_keys intro: upsert_distinct)
  from discovery_steps_trans [OF this Cons.IH] show ?case by simp
qed

lemma store_mappings_calls:
  "calls (fold (store_mapping doc ind stmt_key) ms st) = calls st"
  by (induction ms arbitrary: st) (simp_all add: store_mapping_def)

lemma new_labels_uncached:
  "l \<in> set (new_labels_to_process st ind ls) \<Longrightarrow> (l, ind) \<notin> cache_keys (cache st)"
  by (simp add: new_labels_to_process_def get_label_mapping_None)

lemma new_labels_all_cached:
  "\<forall>l\<in>set ls. get_label_mapping (cache st) l ind \<noteq> None \<Longrightarrow> new_labels_to_process st ind ls = []"
  by (auto simp: new_labels_to_process_def filter_empty_conv)

lemma discover_statement_skip:
  assumes "\<forall>l\<in>set (raw_labels_of (case figures sa of None \<Rightarrow> [] | Some fs \<Rightarrow> fs)).
             get_label_mapping (cache st) l ind \<noteq> None"
  shows "discover_statement allow_llm oracle trees doc ind sa st = st"
  using new_labels_all_cached [OF assms]
  by (simp add: discover_statement_def Let_def split: option.splits)

lemma add_call_steps:
  assumes "\<forall>l\<in>set (raw_labels request). (l, lr_industry request) \<notin> cache_keys (cache st)"
  shows "discovery_steps st (st\<lparr>calls := calls st @ [request]\<rparr>)"
  using assms by (simp add: discovery_steps_def)

lemma discover_statement_steps:
  "discovery_steps st (discover_statement allow_llm oracle trees doc ind sa st)"
proof -
  let ?figs = "case figures sa of None \<Rightarrow> [] | Some fs \<Rightarrow> fs"
  let ?std = "case standard_mapping sa of None \<Rightarrow> [] | Some s \<Rightarrow> s"
  show ?thesis
  proof (cases "statement_key_for ?std ?figs")
    case None
    then show ?thesis
      by (simp add: discover_statement_def Let_def discovery_steps_refl)
  next
    case (Some stmt_key)
    let ?new = "new_labels_to_process st ind (raw_labels_of ?figs)"
    let ?req = "\<lparr>lr_industry = ind, lr_statement_key = stmt_key,
                  lr_statement_name = statement_type sa,
                  lr_statement_currency = statement_currency sa,
                  standard_names = get_leaves_for trees stmt_key, raw_labels = ?new\<rparr>"
    let ?st1 = "st\<lparr>calls := calls st @ [?req]\<rparr>"
    have s1: "discovery_steps st ?st1"
      by (rule add_call_steps) (simp add: new_labels_uncached)
    have s2: "discovery_steps st (fold (store_mapping doc ind stmt_key) ms ?st1)" for ms
      by (rule discovery_steps_trans [OF s1 store_mappings_steps])
    show ?thesis
      using Some s1 s2
      by (auto simp: discover_statement_def Let_def discovery_steps_refl
               split: sum.splits label_response.splits)
  qed
qed

lemma fold_statements_steps:
  "discovery_steps st (fold (discover_statement allow_llm oracle trees doc ind) stmts st)"
proof (induction stmts arbitrary: st)
  case Nil
  then show ?case by (simp add: discovery_steps_refl)
next
  case (Cons sa stmts)
  from discovery_steps_trans [OF discover_statement_steps Cons.IH] show ?case by simp
qed

lemma discover_document_steps:
  "discovery_steps st (discover_document allow_llm oracle trees d doc st)"
proof -
  have a: "discovery_steps st (st\<lparr>raised := True\<rparr>)"
    by (simp add: discovery_steps_def)
  have b: "discovery_steps st
      ((fold (discover_statement allow_llm oracle trees doc ind) stmts st)
         \<lparr>docs_to_update_status := ds\<rparr>)" for ind stmts ds
    using fold_statements_steps [of st allow_llm "oracle" trees doc ind stmts]
    by (simp add: discovery_steps_def)
  show ?thesis
    using a b
    by (auto simp: discover_document_def Let_def discovery_steps_refl split: option.splits)
qed

lemma discover_documents_steps:
  "discovery_steps st (discover_documents allow_llm oracle trees d docs st)"
proof (induction docs arbitrary: st)
  case Nil
  then show ?case by (simp add: discovery_steps_refl)
next
  case (Cons doc docs)
  from discovery_steps_trans [OF discover_document_steps Cons.IH]
       discover_document_steps [of st allow_llm "oracle" trees d doc]
  show ?case by (simp add: Let_def)
qed

lemma run_discovery_steps:
  assumes "run_label_normalizer_discovery allow_llm oracle trees d = (d', st)"
  shows "label_mapping_cache d' = cache st
       \<and> discovery_steps \<lparr>cache = label_mapping_cache d, processed_in_this_run = {},
                           docs_to_update_status = [], calls = [], raised = False\<rparr> st"
  using assms discover_documents_steps [of "\<lparr>cache = label_mapping_cache d, processed_in_this_run = {},
                           docs_to_update_status = [], calls = [], raised = False\<rparr>" allow_llm "oracle" trees d
                           "get_docs_pending_label_normalization d"]
  by (auto simp: run_label_normalizer_discovery_def Let_def discovery_steps_refl
                 mark_docs_label_review_status_def split: if_splits)

lemma run_discovery_properties:
  assumes "run_label_normalizer_discovery allow_llm oracle trees d = (d', st)"
  shows "(distinct (map (\<lambda>m. (raw_label m, industry m)) (label_mapping_cache d))
           \<longrightarrow> distinct (map (\<lambda>m. (raw_label m, industry m)) (label_mapping_cache d')))
       \<and> (\<forall>req\<in>set (calls st). \<forall>l\<in>set (raw_labels req).
             get_label_mapping (label_mapping_cache d) l (lr_industry req) = None)"
  using run_discovery_steps [OF assms]
  by (auto simp: discovery_steps_def get_label_mapping_None)

text \<open>
  Claim C6. The cache keys \<open>(raw_label, industry)\<close> being unique before, they are unique
  after one discovery sweep and after a second one, whatever the oracle answers; every
  request of a sweep asks only for labels that had no cache row when the sweep began, so
  the second sweep asks for no label cached by the first; processing the same document a
  second time asks only for labels not cached after the first time; within a sweep a
  request for a statement holds only labels not cached at the moment of the call; and a
  statement whose distinct raw labels are all cached changes nothing and calls nothing.
\<close>

theorem label_discovery_idempotent:
  assumes uniq: "distinct (map (\<lambda>m. (raw_label m, industry m)) (label_mapping_cache d))"
      and first: "run_label_normalizer_discovery allow1 oracle1 trees d = (d1, s1)"
      and second: "run_label_normalizer_discovery allow2 oracle2 trees d1 = (d2, s2)"
  shows "distinct (map (\<lambda>m. (raw_label m, industry m)) (label_mapping_cache d1))
       \<and> distinct (map (\<lambda>m. (raw_label m, industry m)) (label_mapping_cache d2))
       \<and> (\<forall>req\<in>set (calls s1). \<forall>l\<in>set (raw_labels req).
             get_label_mapping (label_mapping_cache d) l (lr_industry req) = None)
       \<and> (\<forall>req\<in>set (calls s2). \<forall>l\<in>set (raw_labels req).
             get_label_mapping (label_mapping_cache d1) l (lr_industry req) = None)
       \<and> (\<forall>st doc. \<forall>req\<in>set (drop (length (calls (discover_document allow1 oracle1 trees d doc st)))
                                   (calls (discover_document allow2 oracle2 trees d doc
                                            (discover_document allow1 oracle1 trees d doc st)))).
             \<forall>l\<in>set (raw_labels req).
               get_label_mapping (cache (discover_document allow1 oracle1 trees d doc st)) l (lr_industry req) = None)
       \<and> (\<forall>st doc ind sa. \<forall>req\<in>set (drop (length (calls st))
                                   (calls (discover_statement allow1 oracle1 trees doc ind sa st))).
             \<forall>l\<in>set (raw_labels req). get_label_mapping (cache st) l (lr_industry req) = None)
       \<and> (\<forall>st doc ind sa.
             (\<forall>l\<in>set (raw_labels_of (case figures sa of None \<Rightarrow> [] | Some fs \<Rightarrow> fs)).
                 get_label_mapping (cache st) l ind \<noteq> None)
             \<longrightarrow> discover_statement allow1 oracle1 trees doc ind sa st = st)"
proof -
  note p1 = run_discovery_properties [OF first]
  note p2 = run_discovery_properties [OF second]
  from p1 uniq have u1: "distinct (map (\<lambda>m. (raw_label m, industry m)) (label_mapping_cache d1))"
    by blast
  with p2 have u2: "distinct (map (\<lambda>m. (raw_label m, industry m)) (label_mapping_cache d2))"
    by blast
  have drop_new: "\<forall>req\<in>set (drop (length (calls a)) (calls b)). \<forall>l\<in>set (raw_labels req).
             get_label_mapping (cache a) l (lr_industry req) = None"
    if "discovery_steps a b" for a b
  proof -
    from that obtain new where "calls b = calls a @ new"
        "\<forall>req\<in>set new. \<forall>l\<in>set (raw_labels req). (l, lr_industry req) \<notin> cache_keys (cache a)"
      unfolding discovery_steps_def by blast
    then show ?thesis by (simp add: get_label_mapping_None)
  qed
  have c5: "\<forall>st doc. \<forall>req\<in>set (drop (length (calls (discover_document allow1 oracle1 trees d doc st)))
                                   (calls (discover_document allow2 oracle2 trees d doc
                                            (discover_document allow1 oracle1 trees d doc st)))).
             \<forall>l\<in>set (raw_labels req).
               get_label_mapping (cache (discover_document allow1 oracle1 trees d doc st)) l (lr_industry req) = None"
    using drop_new [OF discover_document_steps] by blast
  have c6: "\<forall>st doc ind sa. \<forall>req\<in>set (drop (length (calls st))
                                   (calls (discover_statement allow1 oracle1 trees doc ind sa st))).
             \<forall>l\<in>set (raw_labels req). get_label_mapping (cache st) l (lr_industry req) = None"
    using drop_new [OF discover_statement_steps] by blast
  have c7: "\<forall>st doc ind sa.
             (\<forall>l\<in>set (raw_labels_of (case figures sa of None \<Rightarrow> [] | Some fs \<Rightarrow> fs)).
                 get_label_mapping (cache st) l ind \<noteq> None)
             \<longrightarrow> discover_statement allow1 oracle1 trees doc ind sa st = st"
    using discover_statement_skip by blast
  from u1 u2 p1 p2 c5 c6 c7 show ?thesis
    by blast
qed

theorem label_discovery_idempotent_witness:
  "distinct (map (\<lambda>m. (raw_label m, industry m))
      (label_mapping_cache (fst (run_label_normalizer_discovery True (\<lambda>n request attempt. Some (Mappings [(''Interest Earned'', Some ''interest_earned'')])) [''pnl'' \<mapsto> [Node ''interest_earned'' None None]]
         (fst (run_label_normalizer_discovery True (\<lambda>n request attempt. Some (Mappings [(''Interest Earned'', Some ''interest_earned'')])) [''pnl'' \<mapsto> [Node ''interest_earned'' None None]]
      \<lparr>staged = [\<lparr>doc_id = 7, ticker = ''HDFCBANK'', fiscal_date = ''2024-03-31'',
         normalized_data =
           \<lparr>sn_standalone = [], sn_consolidated = [],
            unit_normalized_data =
              Some \<lparr>filing_analysis = \<lparr>requires_human_review = None\<rparr>,
                    statement_analyses =
                      [\<lparr>statement_type = Some ''P&L'', standard_mapping = Some ''standalone_pnl'',
                        statement_currency = None,
                        figures = Some [\<lparr>label = Some ''Interest Earned'', fig_value = Some ''100'',
                                         representation = Some ''currency'', currency_context = None,
                                         confidence = Some ''high'', reasoning = None\<rparr>]\<rparr>]\<rparr>,
            label_normalized_data = None\<rparr>,
         statement_normalized = True, unit_review_status = ''AUTO_APPROVED'',
         label_review_status = ''PENDING''\<rparr>],
      label_mapping_cache = [], unit_review_queue = [], parsed_documents = Map.empty,
      company_master = [''HDFCBANK'' \<mapsto> \<lparr>company_classification = Some \<lparr>industry_name = Some ''Banking''\<rparr>\<rparr>]\<rparr>))))))
   \<and> map raw_labels (calls (snd (run_label_normalizer_discovery True (\<lambda>n request attempt. Some (Mappings [(''Interest Earned'', Some ''interest_earned'')])) [''pnl'' \<mapsto> [Node ''interest_earned'' None None]]
      \<lparr>staged = [\<lparr>doc_id = 7, ticker = ''HDFCBANK'', fiscal_date = ''2024-03-31'',
         normalized_data =
           \<lparr>sn_standalone = [], sn_consolidated = [],
            unit_normalized_data =
              Some \<lparr>filing_analysis = \<lparr>requires_human_review = None\<rparr>,
                    statement_analyses =
                      [\<lparr>statement_type = Some ''P&L'', standard_mapping = Some ''standalone_pnl'',
                        statement_currency = None,
                        figures = Some [\<lparr>label = Some ''Interest Earned'', fig_value = Some ''100'',
                                         representation = Some ''currency'', currency_context = None,
                                         confidence = Some ''high'', reasoning = None\<rparr>]\<rparr>]\<rparr>,
            label_normalized_data = None\<rparr>,
         statement_normalized = True, unit_review_status = ''AUTO_APPROVED'',
         label_review_status = ''PENDING''\<rparr>],
      label_mapping_cache = [], unit_review_queue = [], parsed_documents = Map.empty,
      company_master = [''HDFCBANK'' \<mapsto> \<lparr>company_classification = Some \<lparr>industry_name = Some ''Banking''\<rparr>\<rparr>]\<rparr>))) = [[''Interest Earned'']]
   \<and> map (\<lambda>m. (raw_label m, industry m, lm_status m)) (label_mapping_cache (fst (run_label_normalizer_discovery True (\<lambda>n request attempt. Some (Mappings [(''Interest Earned'', Some ''interest_earned'')])) [''pnl'' \<mapsto> [Node ''interest_earned'' None None]]
      \<lparr>staged = [\<lparr>doc_id = 7, ticker = ''HDFCBANK'', fiscal_date = ''2024-03-31'',
         normalized_data =
           \<lparr>sn_standalone = [], sn_consolidated = [],
            unit_normalized_data =
              Some \<lparr>filing_analysis = \<lparr>requires_human_review = None\<rparr>,
                    statement_analyses =
                      [\<lparr>statement_type = Some ''P&L'', standard_mapping = Some ''standalone_pnl'',
                        statement_currency = None,
                        figures = Some [\<lparr>label = Some ''Interest Earned'', fig_value = Some ''100'',
                                         representation = Some ''currency'', currency_context = None,
                                         confidence = Some ''high'', reasoning = None\<rparr>]\<rparr>]\<rparr>,
            label_normalized_data = None\<rparr>,
         statement_normalized = True, unit_review_status = ''AUTO_APPROVED'',
         label_review_status = ''PENDING''\<rparr>],
      label_mapping_cache = [], unit_review_queue = [], parsed_documents = Map.empty,
      company_master = [''HDFCBANK'' \<mapsto> \<lparr>company_classification = Some \<lparr>industry_name = Some ''Banking''\<rparr>\<rparr>]\<rparr>)))
        = [(''Interest Earned'', ''Banking'', ''PENDING_REVIEW'')]
   \<and> map label_review_status (staged (fst (run_label_normalizer_discovery True (\<lambda>n request attempt. Some (Mappings [(''Interest Earned'', Some ''interest_earned'')])) [''pnl'' \<mapsto> [Node ''interest_earned'' None None]]
      \<lparr>staged = [\<lparr>doc_id = 7, ticker = ''HDFCBANK'', fiscal_date = ''2024-03-31'',
         normalized_data =
           \<lparr>sn_standalone = [], sn_consolidated = [],
            unit_normalized_data =
              Some \<lparr>filing_analysis = \<lparr>requires_human_review = None\<rparr>,
                    statement_analyses =
                      [\<lparr>statement_type = Some ''P&L'', standard_mapping = Some ''standalone_pnl'',
                        statement_currency = None,
                        figures = Some [\<lparr>label = Some ''Interest Earned'', fig_value = Some ''100'',
                                         representation = Some ''currency'', currency_context = None,
                                         confidence = Some ''high'', reasoning = None\<rparr>]\<rparr>]\<rparr>,
            label_normalized_data = None\<rparr>,
         statement_normalized = True, unit_review_status = ''AUTO_APPROVED'',
         label_review_status = ''PENDING''\<rparr>],
      label_mapping_cache = [], unit_review_queue = [], parsed_documents = Map.empty,
      company_master = [''HDFCBANK'' \<mapsto> \<lparr>company_classification = Some \<lparr>industry_name = Some ''Banking''\<rparr>\<rparr>]\<rparr>))) = [''PENDING_REVIEW'']"
proof -
  let ?d = "\<lparr>staged = [\<lparr>doc_id = 7, ticker = ''HDFCBANK'', fiscal_date = ''2024-03-31'',
         normalized_data =
           \<lparr>sn_standalone = [], sn_consolidated = [],
            unit_normalized_data =
              Some \<lparr>filing_analysis = \<lparr>requires_human_review = None\<rparr>,
                    statement_analyses =
                      [\<lparr>statement_type = Some ''P&L'', standard_mapping = Some ''standalone_pnl'',
                        statement_currency = None,
                        figures = Some [\<lparr>label = Some ''Interest Earned'', fig_value = Some ''100'',
                                         representation = Some ''currency'', currency_context = None,
                                         confidence = Some ''high'', reasoning = None\<rparr>]\<rparr>]\<rparr>,
            label_normalized_data = None\<rparr>,
         statement_normalized = True, unit_review_status = ''AUTO_APPROVED'',
         label_review_status = ''PENDING''\<rparr>],
      label_mapping_cache = [], unit_review_queue = [], parsed_documents = Map.empty,
      company_master = [''HDFCBANK'' \<mapsto> \<lparr>company_classification = Some \<lparr>industry_name = Some ''Banking''\<rparr>\<rparr>]\<rparr>"
  let ?o = "(\<lambda>n request attempt. Some (Mappings [(''Interest Earned'', Some ''interest_earned'')]))"
  let ?t = "[''pnl'' \<mapsto> [Node ''interest_earned'' None None]]"
  obtain d1 s1 where r1: "run_label_normalizer_discovery True ?o ?t ?d = (d1, s1)"
    by (cases "run_label_normalizer_discovery True ?o ?t ?d") blast
  obtain d2 s2 where r2: "run_label_normalizer_discovery True ?o ?t d1 = (d2, s2)"
    by (cases "run_label_normalizer_discovery True ?o ?t d1") blast
  have u: "distinct (map (\<lambda>m. (raw_label m, industry m)) (label_mapping_cache ?d))"
    by simp
  from label_discovery_idempotent [OF u r1 r2]
  have "distinct (map (\<lambda>m. (raw_label m, industry m)) (label_mapping_cache d2))"
    by blast
  then have c1: "distinct (map (\<lambda>m. (raw_label m, industry m))
      (label_mapping_cache (fst (run_label_normalizer_discovery True ?o ?t
         (fst (run_label_normalizer_discovery True ?o ?t ?d))))))"
    by (simp add: r1 r2)
  have ev: "map raw_labels (calls (snd (run_label_normalizer_discovery True ?o ?t ?d))) = [[''Interest Earned'']]
      \<and> map (\<lambda>m. (raw_label m, industry m, lm_status m))
           (label_mapping_cache (fst (run_label_normalizer_discovery True ?o ?t ?d)))
         = [(''Interest Earned'', ''Banking'', ''PENDING_REVIEW'')]
      \<and> map label_review_status (staged (fst (run_label_normalizer_discovery True ?o ?t ?d))) = [''PENDING_REVIEW'']"
    by (simp add: run_label_normalizer_discovery_def get_docs_pending_label_normalization_def
        discover_document_def staged_by_doc_id_def lower_def lower_char_def discover_statement_def
        statement_key_for_def get_leaves_for_def raw_labels_of_def strip_def is_space_def
        new_labels_to_process_def get_label_mapping_def call_gemini_with_json_def
        call_gemini_with_retry_def LLM_MAX_RETRIES_def upt_rec store_mapping_def
        mark_docs_label_review_status_def Let_def)
  from c1 ev show ?thesis by blast
qed


end
